theory Spec2Isabelle
  imports Main "HOL-Library.Word" "HOL-Library.Sublist" "HOL-Library.Signed_Division"
begin

unbundle bit_operations_syntax

section \<open>Sizes and sector arithmetic\<close>

text \<open>
  Modelled from the spec: the declarations of \<open>Bytes\<close>, \<open>MegaBytes\<close>, \<open>Sectors\<close>,
  \<open>DiskSize\<close>, \<open>SectorSize\<close> and \<open>ToSectors\<close> are used by \<open>pkg/os/utils.go\<close> but
  declared elsewhere. The spec fixes them: sizes are unsigned 64-bit counts with exact
  conversions, the sector size is 512, and the conversion to sectors fails for a byte
  count that is not a whole number of sectors.
\<close>

type_synonym Bytes = "64 word"
type_synonym MegaBytes = "64 word"
type_synonym Sectors = "64 word"

datatype DiskSize = InBytes Bytes | InMegaBytes MegaBytes | InSectors Sectors

definition SectorSize :: "64 word" where
  "SectorSize = 512"

datatype error =
    errors_New string
  | UnrepresentableSize
  | Failure string

fun ToBytes :: "DiskSize \<Rightarrow> Bytes" where
  "ToBytes (InBytes b) = b"
| "ToBytes (InMegaBytes m) = push_bit 20 m"
| "ToBytes (InSectors s) = s * SectorSize"

definition ToSectors :: "DiskSize \<Rightarrow> error + Sectors" where
  "ToSectors b =
     (let inBytes = ToBytes b
      in if inBytes mod SectorSize \<noteq> 0 then Inl UnrepresentableSize
         else Inr (inBytes div SectorSize))"

section \<open>Devices, resources and partitions\<close>

datatype BlockDevice = BlockDevice (Name: string)

datatype DeviceMapperDevice =
  DeviceMapperDevice (start: Sectors) (sectors: Sectors) (orginalDevice: BlockDevice)
    (DeviceName: string)

text \<open>
  A partition is a resource with an offset and a size. The source tells two kinds apart
  (line 93): the ones backed by the device mapper, and the others.
\<close>

datatype Part =
    DmPart DeviceMapperDevice
  | PartedPart (device: BlockDevice) (offset: Bytes) (extent: Bytes)

fun Part_Offset :: "Part \<Rightarrow> DiskSize" where
  "Part_Offset (DmPart d) = InSectors (start d)"
| "Part_Offset (PartedPart dev off sz) = InBytes off"

fun Part_Size :: "Part \<Rightarrow> DiskSize" where
  "Part_Size (DmPart d) = InSectors (sectors d)"
| "Part_Size (PartedPart dev off sz) = InBytes sz"

datatype Resource =
    LoDevice string
  | DmResource DeviceMapperDevice
  | PartResource Part

definition NewLoDevice :: "string \<Rightarrow> Resource" where
  "NewLoDevice file = LoDevice file"

definition NewDevice :: "Sectors \<Rightarrow> Sectors \<Rightarrow> BlockDevice \<Rightarrow> string \<Rightarrow> Resource" where
  "NewDevice st sz origDevice deviceName =
     DmResource (DeviceMapperDevice st sz origDevice deviceName)"

datatype Partitioner = MsDosPartioner string | DiskLabelPartioner string

section \<open>The host system\<close>

text \<open>
  Every call that leaves the program (the operating system, the device and partition
  helpers, the external utilities) is recorded as an event together with the answer it
  got. The trace is in the order of the calls.
\<close>

datatype event =
    Ev_Create string "error option"
  | Ev_Seek string "64 word" "error option"
  | Ev_Write string "error option"
  | Ev_Close string "error option"
  | Ev_MkdirAll string "error option"
  | Ev_Execute string string
  | Ev_Acquire Resource "error + BlockDevice"
  | Ev_Release Resource "error option"
  | Ev_MakeTable Partitioner "error option"
  | Ev_MakePartTillEnd Partitioner string DiskSize "error option"
  | Ev_MakePart Partitioner string Bytes Bytes "error option"
  | Ev_ListParts BlockDevice "Part list" "error option"
  | Ev_RunLogCommand "string list" "error option"
  | Ev_Mount BlockDevice "error + string"
  | Ev_Umount string "error option"
  | Ev_CopyFile string string "error option"
  | Ev_CopyDir string string "error option"
  | Ev_GetDirSize string "error + 64 word"

type_synonym trace = "event list"

text \<open>
  The host is a record of oracles: each answers a call from the calls made so far and
  the arguments of this one, so a host may answer the same call differently at
  different moments. \<open>path_Join\<close> is Go's \<open>path.Join\<close>, a pure function of the
  standard library.
\<close>

record sys =
  os_Create :: "trace \<Rightarrow> string \<Rightarrow> error option"
  fd_Seek :: "trace \<Rightarrow> string \<Rightarrow> 64 word \<Rightarrow> error option"
  fd_Write :: "trace \<Rightarrow> string \<Rightarrow> error option"
  fd_Close :: "trace \<Rightarrow> string \<Rightarrow> error option"
  os_MkdirAll :: "trace \<Rightarrow> string \<Rightarrow> error option"
  path_Join :: "string list \<Rightarrow> string"
  Acquire :: "trace \<Rightarrow> Resource \<Rightarrow> error + BlockDevice"
  Release :: "trace \<Rightarrow> Resource \<Rightarrow> error option"
  MakeTable :: "trace \<Rightarrow> Partitioner \<Rightarrow> error option"
  MakePartTillEnd :: "trace \<Rightarrow> Partitioner \<Rightarrow> string \<Rightarrow> DiskSize \<Rightarrow> error option"
  MakePart :: "trace \<Rightarrow> Partitioner \<Rightarrow> string \<Rightarrow> Bytes \<Rightarrow> Bytes \<Rightarrow> error option"
  ListParts :: "trace \<Rightarrow> BlockDevice \<Rightarrow> Part list \<times> error option"
  RunLogCommand :: "trace \<Rightarrow> string list \<Rightarrow> error option"
  Mount :: "trace \<Rightarrow> BlockDevice \<Rightarrow> error + string"
  Umount :: "trace \<Rightarrow> string \<Rightarrow> error option"
  CopyFile :: "trace \<Rightarrow> string \<Rightarrow> string \<Rightarrow> error option"
  CopyDir :: "trace \<Rightarrow> string \<Rightarrow> string \<Rightarrow> error option"
  GetDirSize :: "trace \<Rightarrow> string \<Rightarrow> error + 64 word"

text \<open>Each call asks the oracle and appends the event.\<close>

definition do_Create :: "sys \<Rightarrow> trace \<Rightarrow> string \<Rightarrow> trace \<times> error option" where
  "do_Create s h f = (let r = os_Create s h f in (h @ [Ev_Create f r], r))"

definition do_Seek :: "sys \<Rightarrow> trace \<Rightarrow> string \<Rightarrow> 64 word \<Rightarrow> trace \<times> error option" where
  "do_Seek s h f off = (let r = fd_Seek s h f off in (h @ [Ev_Seek f off r], r))"

definition do_Write :: "sys \<Rightarrow> trace \<Rightarrow> string \<Rightarrow> trace \<times> error option" where
  "do_Write s h f = (let r = fd_Write s h f in (h @ [Ev_Write f r], r))"

definition do_Close :: "sys \<Rightarrow> string \<Rightarrow> trace \<Rightarrow> trace" where
  "do_Close s f h = h @ [Ev_Close f (fd_Close s h f)]"

definition do_MkdirAll :: "sys \<Rightarrow> trace \<Rightarrow> string \<Rightarrow> trace" where
  "do_MkdirAll s h d = h @ [Ev_MkdirAll d (os_MkdirAll s h d)]"

definition do_Acquire :: "sys \<Rightarrow> trace \<Rightarrow> Resource \<Rightarrow> trace \<times> (error + BlockDevice)" where
  "do_Acquire s h res = (let r = Acquire s h res in (h @ [Ev_Acquire res r], r))"

definition do_Release :: "sys \<Rightarrow> Resource \<Rightarrow> trace \<Rightarrow> trace" where
  "do_Release s res h = h @ [Ev_Release res (Release s h res)]"

definition do_MakeTable :: "sys \<Rightarrow> trace \<Rightarrow> Partitioner \<Rightarrow> trace \<times> error option" where
  "do_MakeTable s h p = (let r = MakeTable s h p in (h @ [Ev_MakeTable p r], r))"

definition do_MakePartTillEnd ::
  "sys \<Rightarrow> trace \<Rightarrow> Partitioner \<Rightarrow> string \<Rightarrow> DiskSize \<Rightarrow> trace \<times> error option" where
  "do_MakePartTillEnd s h p ty st =
     (let r = MakePartTillEnd s h p ty st in (h @ [Ev_MakePartTillEnd p ty st r], r))"

definition do_MakePart ::
  "sys \<Rightarrow> trace \<Rightarrow> Partitioner \<Rightarrow> string \<Rightarrow> Bytes \<Rightarrow> Bytes \<Rightarrow> trace \<times> error option" where
  "do_MakePart s h p ty st en =
     (let r = MakePart s h p ty st en in (h @ [Ev_MakePart p ty st en r], r))"

definition do_ListParts :: "sys \<Rightarrow> trace \<Rightarrow> BlockDevice \<Rightarrow> trace \<times> Part list \<times> error option" where
  "do_ListParts s h dev =
     (let r = ListParts s h dev in (h @ [Ev_ListParts dev (fst r) (snd r)], r))"

definition do_RunLogCommand :: "sys \<Rightarrow> trace \<Rightarrow> string list \<Rightarrow> trace \<times> error option" where
  "do_RunLogCommand s h args =
     (let r = RunLogCommand s h args in (h @ [Ev_RunLogCommand args r], r))"

definition do_Mount :: "sys \<Rightarrow> trace \<Rightarrow> BlockDevice \<Rightarrow> trace \<times> (error + string)" where
  "do_Mount s h dev = (let r = Mount s h dev in (h @ [Ev_Mount dev r], r))"

definition do_Umount :: "sys \<Rightarrow> string \<Rightarrow> trace \<Rightarrow> trace" where
  "do_Umount s m h = h @ [Ev_Umount m (Umount s h m)]"

definition do_CopyFile :: "sys \<Rightarrow> trace \<Rightarrow> string \<Rightarrow> string \<Rightarrow> trace \<times> error option" where
  "do_CopyFile s h src dst =
     (let r = CopyFile s h src dst in (h @ [Ev_CopyFile src dst r], r))"

definition do_CopyDir :: "sys \<Rightarrow> trace \<Rightarrow> string \<Rightarrow> string \<Rightarrow> trace" where
  "do_CopyDir s h src dst = h @ [Ev_CopyDir src dst (CopyDir s h src dst)]"

definition do_GetDirSize :: "sys \<Rightarrow> trace \<Rightarrow> string \<Rightarrow> trace \<times> (error + 64 word)" where
  "do_GetDirSize s h d = (let r = GetDirSize s h d in (h @ [Ev_GetDirSize d r], r))"

text \<open>
  Go's \<open>defer\<close>: the deferred call runs when the rest of the function is over, whatever
  the rest returned, and what the deferred call returns is dropped.
\<close>

definition deferred :: "(trace \<Rightarrow> trace) \<Rightarrow> trace \<times> 'a \<Rightarrow> trace \<times> 'a" where
  "deferred cleanup body = (cleanup (fst body), snd body)"

section \<open>Sparse files\<close>

definition createSparseFile :: "sys \<Rightarrow> trace \<Rightarrow> string \<Rightarrow> DiskSize \<Rightarrow> trace \<times> error option" where
  "createSparseFile s h filename sz =
     (case do_Create s h filename of
        (h1, Some err) \<Rightarrow> (h1, Some err)
      | (h1, None) \<Rightarrow>
          deferred (do_Close s filename)
            (case do_Seek s h1 filename (ToBytes sz - 1) of
               (h2, Some err) \<Rightarrow> (h2, Some err)
             | (h2, None) \<Rightarrow>
                 (case do_Write s h2 filename of
                    (h3, Some err) \<Rightarrow> (h3, Some err)
                  | (h3, None) \<Rightarrow> (h3, None))))"

section \<open>Bootloader files\<close>

definition newline :: string where
  "newline = [CHR 0x0A]"

definition GrubTemplate :: "string \<Rightarrow> string \<Rightarrow> string" where
  "GrubTemplate RootDrive CommandLine =
     ''default=0'' @ newline @
     ''fallback=1'' @ newline @
     ''timeout=1'' @ newline @
     ''hiddenmenu'' @ newline @
     newline @
     ''title Unik'' @ newline @
     ''root '' @ RootDrive @ newline @
     ''kernel /boot/program.bin '' @ CommandLine @ newline"

definition DeviceMapFile :: "string \<Rightarrow> string" where
  "DeviceMapFile GrubDevice = ''(hd0) '' @ GrubDevice @ newline"

definition ProgramName :: string where
  "ProgramName = ''program.bin''"

definition writeDeviceMap :: "sys \<Rightarrow> trace \<Rightarrow> string \<Rightarrow> string \<Rightarrow> trace \<times> error option" where
  "writeDeviceMap s h fname rootDevice =
     (case do_Create s h fname of
        (h1, Some err) \<Rightarrow> (h1, Some err)
      | (h1, None) \<Rightarrow>
          deferred (do_Close s fname)
            (h1 @ [Ev_Execute fname (DeviceMapFile rootDevice)], None))"

definition writeBootTemplate ::
  "sys \<Rightarrow> trace \<Rightarrow> string \<Rightarrow> string \<Rightarrow> string \<Rightarrow> trace \<times> error option" where
  "writeBootTemplate s h fname rootDrive commandline =
     (case do_Create s h fname of
        (h1, Some err) \<Rightarrow> (h1, Some err)
      | (h1, None) \<Rightarrow>
          deferred (do_Close s fname)
            (h1 @ [Ev_Execute fname (GrubTemplate rootDrive commandline)], None))"

definition PrepareGrub ::
  "sys \<Rightarrow> trace \<Rightarrow> string \<Rightarrow> string \<Rightarrow> string \<Rightarrow> string \<Rightarrow> trace \<times> error option" where
  "PrepareGrub s h folder rootDeviceName kernel' commandline =
     (let grubPath = path_Join s [folder, ''boot'', ''grub''];
          kernelDst = path_Join s [folder, ''boot'', ProgramName];
          h0 = do_MkdirAll s h grubPath
      in case do_CopyFile s h0 kernel' kernelDst of
           (h1, Some err) \<Rightarrow> (h1, Some err)
         | (h1, None) \<Rightarrow>
        (case writeBootTemplate s h1 (path_Join s [grubPath, ''menu.lst'']) ''(hd0,0)'' commandline of
           (h2, Some err) \<Rightarrow> (h2, Some err)
         | (h2, None) \<Rightarrow>
        (case writeBootTemplate s h2 (path_Join s [grubPath, ''grub.conf'']) ''(hd0,0)'' commandline of
           (h3, Some err) \<Rightarrow> (h3, Some err)
         | (h3, None) \<Rightarrow>
        (case writeDeviceMap s h3 (path_Join s [grubPath, ''map'']) rootDeviceName of
           (h4, Some err) \<Rightarrow> (h4, Some err)
         | (h4, None) \<Rightarrow> (h4, None)))))"

section \<open>The boot image assembler\<close>

text \<open>
  \<open>CreateBootImageOnFile\<close>, line by line. The results of \<open>MakeTable\<close>,
  \<open>MakePartTillEnd\<close> and \<open>PrepareGrub\<close> are not looked at (lines 81, 82 and 117).
\<close>

definition CreateBootImageOnFile ::
  "sys \<Rightarrow> trace \<Rightarrow> string \<Rightarrow> DiskSize \<Rightarrow> string \<Rightarrow> string \<Rightarrow> trace \<times> error option" where
  "CreateBootImageOnFile s h rootFile sizeOfFile progPath commandline =
     (case ToSectors sizeOfFile of
        Inl err \<Rightarrow> (h, Some err)
      | Inr sizeInSectors \<Rightarrow>
     (let rootLo = NewLoDevice rootFile in
      case do_Acquire s h rootLo of
        (h1, Inl err) \<Rightarrow> (h1, Some err)
      | (h1, Inr rootLodName) \<Rightarrow>
     deferred (do_Release s rootLo)
     (let grubDiskName = ''hda'';
          rootBlkDev = NewDevice 0 sizeInSectors rootLodName grubDiskName in
      case do_Acquire s h1 rootBlkDev of
        (h2, Inl err) \<Rightarrow> (h2, Some err)
      | (h2, Inr rootDevice) \<Rightarrow>
     deferred (do_Release s rootBlkDev)
     (let p = MsDosPartioner (Name rootDevice);
          h3 = fst (do_MakeTable s h2 p);
          h4 = fst (do_MakePartTillEnd s h3 p ''primary'' (InMegaBytes 2)) in
      case do_ListParts s h4 rootDevice of
        (h5, parts, Some err) \<Rightarrow> (h5, Some err)
      | (h5, parts, None) \<Rightarrow>
     (case parts of
        [] \<Rightarrow> (h5, Some (errors_New ''No parts created''))
      | part0 # _ \<Rightarrow>
     (let part = (case part0 of
                    DmPart dmPart \<Rightarrow>
                      DmPart (DeviceMapperDevice (start dmPart) (sectors dmPart)
                                (orginalDevice dmPart) (grubDiskName @ ''1''))
                  | PartedPart dev off sz \<Rightarrow> part0) in
      case do_Acquire s h5 (PartResource part) of
        (h6, Inl err) \<Rightarrow> (h6, Some err)
      | (h6, Inr bootDevice) \<Rightarrow>
     deferred (do_Release s (PartResource part))
     (let bootLabel = ''boot'' in
      case do_RunLogCommand s h6
             [''mkfs'', ''-L'', bootLabel, ''-I'', ''128'', ''-t'', ''ext2'', Name bootDevice] of
        (h7, Some err) \<Rightarrow> (h7, Some err)
      | (h7, None) \<Rightarrow>
     (case do_Mount s h7 bootDevice of
        (h8, Inl err) \<Rightarrow> (h8, Some err)
      | (h8, Inr mntPoint) \<Rightarrow>
     deferred (do_Umount s mntPoint)
     (let h9 = fst (PrepareGrub s h8 mntPoint (Name rootDevice) progPath commandline) in
      case do_RunLogCommand s h9
             [''grub-install'', ''--no-floppy'', ''--root-directory='' @ mntPoint,
              Name rootDevice] of
        (h10, Some err) \<Rightarrow> (h10, Some err)
      | (h10, None) \<Rightarrow> (h10, None))))))))))"

definition CreateBootImageWithSize ::
  "sys \<Rightarrow> trace \<Rightarrow> string \<Rightarrow> string \<Rightarrow> string \<Rightarrow> DiskSize \<Rightarrow> trace \<times> error option" where
  "CreateBootImageWithSize s h rootFile progPath commandline sz =
     (case createSparseFile s h rootFile sz of
        (h1, Some err) \<Rightarrow> (h1, Some err)
      | (h1, None) \<Rightarrow> CreateBootImageOnFile s h1 rootFile sz progPath commandline)"

section \<open>The volume image assembler\<close>

text \<open>
  An indexing expression of the source that is out of range ends the call by a run-time
  panic; deferred calls still run.
\<close>

datatype 'a outcome = Panics | Returns 'a

text \<open>
  Modelled from the spec: \<open>types.RawVolume\<close> is declared outside \<open>pkg/os/utils.go\<close>; it
  is a source directory path and an optional explicit size, zero meaning that the size
  is derived from the directory. The source compares \<open>Size\<close> with 0 and converts it to
  \<open>Bytes\<close>.
\<close>

record RawVolume =
  Path :: string
  Size :: "64 word"

text \<open>Division of Go's \<open>int64\<close>: the quotient is truncated towards zero.\<close>

definition int64_div :: "64 word \<Rightarrow> 64 word \<Rightarrow> 64 word" where
  "int64_div a b = word_of_int (sint a sdiv sint b)"

definition formatDeviceAndCopyContents ::
  "sys \<Rightarrow> trace \<Rightarrow> string \<Rightarrow> BlockDevice \<Rightarrow> trace \<times> error option" where
  "formatDeviceAndCopyContents s h folder dev =
     (case do_RunLogCommand s h [''mkfs'', ''-I'', ''128'', ''-t'', ''ext2'', Name dev] of
        (h1, Some err) \<Rightarrow> (h1, Some err)
      | (h1, None) \<Rightarrow>
     (case do_Mount s h1 dev of
        (h2, Inl err) \<Rightarrow> (h2, Some err)
      | (h2, Inr mntPoint) \<Rightarrow>
     deferred (do_Umount s mntPoint)
       (do_CopyDir s h2 folder mntPoint, None)))"

definition CopyToImgFile :: "sys \<Rightarrow> trace \<Rightarrow> string \<Rightarrow> string \<Rightarrow> trace \<times> error option" where
  "CopyToImgFile s h folder imgfile =
     (let imgLo = NewLoDevice imgfile in
      case do_Acquire s h imgLo of
        (h1, Inl err) \<Rightarrow> (h1, Some err)
      | (h1, Inr imgLodName) \<Rightarrow>
     deferred (do_Release s imgLo)
       (formatDeviceAndCopyContents s h1 folder imgLodName))"

definition copyToPart :: "sys \<Rightarrow> trace \<Rightarrow> string \<Rightarrow> Part \<Rightarrow> trace \<times> error option" where
  "copyToPart s h folder part =
     (case do_Acquire s h (PartResource part) of
        (h1, Inl err) \<Rightarrow> (h1, Some err)
      | (h1, Inr imgLodName) \<Rightarrow>
     deferred (do_Release s (PartResource part))
       (formatDeviceAndCopyContents s h1 folder imgLodName))"

definition CreateSingleVolume :: "sys \<Rightarrow> trace \<Rightarrow> string \<Rightarrow> RawVolume \<Rightarrow> trace \<times> error option" where
  "CreateSingleVolume s h rootFile folder =
     (let ext2Overhead = ToBytes (InMegaBytes 2) in
      case do_GetDirSize s h (Path folder) of
        (h1, Inl err) \<Rightarrow> (h1, Some err)
      | (h1, Inr size0) \<Rightarrow>
     (let size1 = SectorSize + size0 + int64_div size0 10 + ext2Overhead;
          size2 = size1 AND NOT (SectorSize - 1);
          sizeVolume = InBytes size2 in
      case ToSectors (InBytes size2) of
        Inl err \<Rightarrow> (h1, Some err)
      | Inr _ \<Rightarrow>
     (case createSparseFile s h1 rootFile sizeVolume of
        (h2, Some err) \<Rightarrow> (h2, Some err)
      | (h2, None) \<Rightarrow> CopyToImgFile s h2 (Path folder) rootFile)))"

text \<open>
  The per-volume loop of lines 291 to 303 and of lines 356 to 368: the two loops have
  the same body, and run over the sizes in the order of the volumes.
\<close>

fun layout ::
  "sys \<Rightarrow> trace \<Rightarrow> Partitioner \<Rightarrow> BlockDevice \<Rightarrow> Bytes \<Rightarrow> Bytes list
     \<Rightarrow> trace \<times> (error + Bytes) outcome" where
  "layout s h p dev st [] = (h, Returns (Inr st))"
| "layout s h p dev st (curSize # rest) =
     (let en = st + curSize in
      case do_MakePart s h p ''ext2'' st en of
        (h1, Some err) \<Rightarrow> (h1, Returns (Inl err))
      | (h1, None) \<Rightarrow>
     (case do_ListParts s h1 dev of
        (h2, curParts, Some err) \<Rightarrow> (h2, Returns (Inl err))
      | (h2, curParts, None) \<Rightarrow>
          if curParts = [] then (h2, Panics)
          else layout s h2 p dev
                 (ToBytes (Part_Offset (last curParts)) + ToBytes (Part_Size (last curParts)))
                 rest))"

text \<open>
  The population loop of lines 308 to 312 and of lines 377 to 380: the i-th directory
  goes to \<open>parts[i]\<close>, and what \<open>copyToPart\<close> returns is not looked at.
\<close>

fun populate :: "sys \<Rightarrow> trace \<Rightarrow> Part list \<Rightarrow> nat \<Rightarrow> string list \<Rightarrow> trace \<times> unit outcome" where
  "populate s h parts i [] = (h, Returns ())"
| "populate s h parts i (localDir # rest) =
     (if i < length parts
      then populate s (fst (copyToPart s h localDir (parts ! i))) parts (Suc i) rest
      else (h, Panics))"

text \<open>A Go map read gives the zero value for a key that is not there.\<close>

definition size_at :: "(string \<rightharpoonup> Bytes) \<Rightarrow> string \<Rightarrow> Bytes" where
  "size_at sizes k = (case sizes k of Some b \<Rightarrow> b | None \<Rightarrow> 0)"

definition path_at :: "(string \<times> RawVolume) list \<Rightarrow> string \<Rightarrow> string" where
  "path_at volumes k = (case map_of volumes k of Some v \<Rightarrow> Path v | None \<Rightarrow> [])"

text \<open>
  The map of \<open>CreatePartitionedVolumes\<close> is given as its entries in the order in which
  \<open>range\<close> yields them in this call (Go leaves that order open); the keys of a map are
  distinct. The loop of lines 261 to 269:
\<close>

fun measure_volumes ::
  "sys \<Rightarrow> trace \<Rightarrow> (string \<times> RawVolume) list \<Rightarrow> (string \<rightharpoonup> Bytes) \<Rightarrow> string list \<Rightarrow> Bytes
     \<Rightarrow> trace \<times> (error + (string \<rightharpoonup> Bytes) \<times> string list \<times> Bytes)" where
  "measure_volumes s h [] sizes orderedKeys totalSize = (h, Inr (sizes, orderedKeys, totalSize))"
| "measure_volumes s h ((mntPoint, localDir) # rest) sizes orderedKeys totalSize =
     (case do_GetDirSize s h (Path localDir) of
        (h1, Inl err) \<Rightarrow> (h1, Inl err)
      | (h1, Inr cursize) \<Rightarrow>
          (let sizes1 = sizes(mntPoint \<mapsto> cursize + ToBytes (InMegaBytes 2))
           in measure_volumes s h1 rest sizes1 (orderedKeys @ [mntPoint])
                (totalSize + size_at sizes1 mntPoint)))"

definition CreatePartitionedVolumes ::
  "sys \<Rightarrow> trace \<Rightarrow> string \<Rightarrow> (string \<times> RawVolume) list
     \<Rightarrow> trace \<times> (string list \<times> error option) outcome" where
  "CreatePartitionedVolumes s h imgFile volumes =
     (let firstPartFffest = ToBytes (InMegaBytes 2) in
      case measure_volumes s h volumes Map.empty [] 0 of
        (h1, Inl err) \<Rightarrow> (h1, Returns ([], Some err))
      | (h1, Inr (sizes, orderedKeys, totalSize)) \<Rightarrow>
     (let sizeVolume0 = (SectorSize + totalSize + totalSize div 10) AND NOT (SectorSize - 1);
          sizeVolume = sizeVolume0 + ToBytes (InMegaBytes 4) in
      case createSparseFile s h1 imgFile (InBytes sizeVolume) of
        (h2, Some err) \<Rightarrow> (h2, Returns ([], Some err))
      | (h2, None) \<Rightarrow>
     (let imgLo = NewLoDevice imgFile in
      case do_Acquire s h2 imgLo of
        (h3, Inl err) \<Rightarrow> (h3, Returns ([], Some err))
      | (h3, Inr imgLodName) \<Rightarrow>
     deferred (do_Release s imgLo)
     (let p = DiskLabelPartioner (Name imgLodName);
          h4 = fst (do_MakeTable s h3 p) in
      case layout s h4 p imgLodName firstPartFffest (map (size_at sizes) orderedKeys) of
        (h5, Panics) \<Rightarrow> (h5, Panics)
      | (h5, Returns (Inl err)) \<Rightarrow> (h5, Returns ([], Some err))
      | (h5, Returns (Inr _)) \<Rightarrow>
     (case do_ListParts s h5 imgLodName of
        (h6, parts, err) \<Rightarrow>
     (case populate s h6 parts 0 (map (path_at volumes) orderedKeys) of
        (h7, Panics) \<Rightarrow> (h7, Panics)
      | (h7, Returns _) \<Rightarrow> (h7, Returns (orderedKeys, None))))))))"

text \<open>The loop of lines 324 to 335:\<close>

fun volume_sizes ::
  "sys \<Rightarrow> trace \<Rightarrow> RawVolume list \<Rightarrow> Bytes list \<Rightarrow> Bytes
     \<Rightarrow> trace \<times> (error + Bytes list \<times> Bytes)" where
  "volume_sizes s h [] sizes totalSize = (h, Inr (sizes, totalSize))"
| "volume_sizes s h (v # rest) sizes totalSize =
     (if Size v = 0
      then (case do_GetDirSize s h (Path v) of
              (h1, Inl err) \<Rightarrow> (h1, Inl err)
            | (h1, Inr cursize) \<Rightarrow>
                (let sizes1 = sizes @ [cursize + ToBytes (InMegaBytes 2)]
                 in volume_sizes s h1 rest sizes1 (totalSize + last sizes1)))
      else (let sizes1 = sizes @ [Size v]
            in volume_sizes s h rest sizes1 (totalSize + last sizes1)))"

definition CreateVolumes ::
  "sys \<Rightarrow> trace \<Rightarrow> string \<Rightarrow> RawVolume list \<Rightarrow> (string \<Rightarrow> Partitioner)
     \<Rightarrow> trace \<times> error option outcome" where
  "CreateVolumes s h imgFile volumes newPartitioner =
     (let firstPartOffest = ToBytes (InMegaBytes 2) in
      case volume_sizes s h volumes [] 0 of
        (h1, Inl err) \<Rightarrow> (h1, Returns (Some err))
      | (h1, Inr (sizes, totalSize)) \<Rightarrow>
     (let sizeDrive0 = (SectorSize + totalSize + totalSize div 10) AND NOT (SectorSize - 1);
          sizeDrive = sizeDrive0 + ToBytes (InMegaBytes 4) in
      case createSparseFile s h1 imgFile (InBytes sizeDrive) of
        (h2, Some err) \<Rightarrow> (h2, Returns (Some err))
      | (h2, None) \<Rightarrow>
     (let imgLo = NewLoDevice imgFile in
      case do_Acquire s h2 imgLo of
        (h3, Inl err) \<Rightarrow> (h3, Returns (Some err))
      | (h3, Inr imgLodName) \<Rightarrow>
     deferred (do_Release s imgLo)
     (let p = newPartitioner (Name imgLodName);
          h4 = fst (do_MakeTable s h3 p) in
      case layout s h4 p imgLodName firstPartOffest sizes of
        (h5, Panics) \<Rightarrow> (h5, Panics)
      | (h5, Returns (Inl err)) \<Rightarrow> (h5, Returns (Some err))
      | (h5, Returns (Inr _)) \<Rightarrow>
     (case do_ListParts s h5 imgLodName of
        (h6, parts, err) \<Rightarrow>
          if length parts \<noteq> length volumes
          then (h6, Returns (Some (errors_New ''Not enough parts created!'')))
          else
     (case populate s h6 parts 0 (map Path volumes) of
        (h7, Panics) \<Rightarrow> (h7, Panics)
      | (h7, Returns _) \<Rightarrow> (h7, Returns None)))))))"

section \<open>Reading a trace\<close>

fun acquired_of :: "event \<Rightarrow> Resource list" where
  "acquired_of (Ev_Acquire res (Inr dev)) = [res]"
| "acquired_of _ = []"

fun released_of :: "event \<Rightarrow> Resource list" where
  "released_of (Ev_Release res r) = [res]"
| "released_of _ = []"

definition acquired :: "trace \<Rightarrow> Resource list" where
  "acquired h = concat (map acquired_of h)"

definition released :: "trace \<Rightarrow> Resource list" where
  "released h = concat (map released_of h)"

datatype kind = Loop | Mapper | Partition

fun kind_of :: "Resource \<Rightarrow> kind" where
  "kind_of (LoDevice f) = Loop"
| "kind_of (DmResource d) = Mapper"
| "kind_of (PartResource p) = Partition"

fun is_cleanup :: "event \<Rightarrow> bool" where
  "is_cleanup (Ev_Release res r) = True"
| "is_cleanup (Ev_Umount m r) = True"
| "is_cleanup _ = False"

fun failure_of :: "event \<Rightarrow> error option" where
  "failure_of (Ev_Acquire res (Inl e)) = Some e"
| "failure_of (Ev_ListParts dev ps r) = r"
| "failure_of (Ev_RunLogCommand args r) = r"
| "failure_of (Ev_Mount dev (Inl e)) = Some e"
| "failure_of _ = None"

definition steps :: "trace \<Rightarrow> trace" where
  "steps h = filter (\<lambda>e. \<not> is_cleanup e) h"

fun boot_step_error :: "event \<Rightarrow> error option" where
  "boot_step_error (Ev_ListParts dev [] None) = Some (errors_New ''No parts created'')"
| "boot_step_error e = failure_of e"

fun is_partitioning :: "event \<Rightarrow> bool" where
  "is_partitioning (Ev_MakeTable p r) = True"
| "is_partitioning (Ev_MakePartTillEnd p ty st r) = True"
| "is_partitioning (Ev_MakePart p ty st en r) = True"
| "is_partitioning (Ev_ListParts dev ps r) = True"
| "is_partitioning _ = False"

definition partitioning :: "trace \<Rightarrow> trace" where
  "partitioning h = filter is_partitioning h"

fun execute_of :: "event \<Rightarrow> (string \<times> string) list" where
  "execute_of (Ev_Execute f txt) = [(f, txt)]"
| "execute_of _ = []"

definition executes :: "trace \<Rightarrow> (string \<times> string) list" where
  "executes h = concat (map execute_of h)"

fun created_of :: "event \<Rightarrow> string list" where
  "created_of (Ev_Create f None) = [f]"
| "created_of _ = []"

definition created :: "trace \<Rightarrow> string list" where
  "created h = concat (map created_of h)"

text \<open>
  The bootloader files as the specification words them: the menu file and its duplicate
  with the fixed text, then the device map with its one line.
\<close>

definition spec_grub_files :: "sys \<Rightarrow> string \<Rightarrow> string \<Rightarrow> string \<Rightarrow> (string \<times> string) list" where
  "spec_grub_files s folder rootDeviceName commandline =
     [(path_Join s [path_Join s [folder, ''boot'', ''grub''], ''menu.lst''],
       ''default=0\<newline>fallback=1\<newline>timeout=1\<newline>hiddenmenu\<newline>\<newline>title Unik\<newline>root (hd0,0)\<newline>kernel /boot/program.bin '' @ commandline @ ''\<newline>''),
      (path_Join s [path_Join s [folder, ''boot'', ''grub''], ''grub.conf''],
       ''default=0\<newline>fallback=1\<newline>timeout=1\<newline>hiddenmenu\<newline>\<newline>title Unik\<newline>root (hd0,0)\<newline>kernel /boot/program.bin '' @ commandline @ ''\<newline>''),
      (path_Join s [path_Join s [folder, ''boot'', ''grub''], ''map''],
       ''(hd0) '' @ rootDeviceName @ ''\<newline>'')]"

text \<open>
  A host on which every call succeeds, and one on which only the copy of the program
  into the boot partition fails.
\<close>

definition boot_host :: sys where
  "boot_host =
     \<lparr> os_Create = (\<lambda>h f. None),
       fd_Seek = (\<lambda>h f off. None),
       fd_Write = (\<lambda>h f. None),
       fd_Close = (\<lambda>h f. None),
       os_MkdirAll = (\<lambda>h d. None),
       path_Join = (\<lambda>elems. foldr (\<lambda>e acc. if acc = [] then e else e @ ''/'' @ acc) elems []),
       Acquire = (\<lambda>h res. Inr (BlockDevice
                    (case res of LoDevice f \<Rightarrow> ''/dev/loop0''
                     | DmResource d \<Rightarrow> ''/dev/mapper/'' @ DeviceName d
                     | PartResource (DmPart d) \<Rightarrow> ''/dev/mapper/'' @ DeviceName d
                     | PartResource (PartedPart dev off sz) \<Rightarrow> Name dev @ ''p1''))),
       Release = (\<lambda>h res. None),
       MakeTable = (\<lambda>h p. None),
       MakePartTillEnd = (\<lambda>h p ty st. None),
       MakePart = (\<lambda>h p ty st en. None),
       ListParts = (\<lambda>h dev. ([DmPart (DeviceMapperDevice 4096 126976 dev ''part1'')], None)),
       RunLogCommand = (\<lambda>h args. None),
       Mount = (\<lambda>h dev. Inr ''/mnt''),
       Umount = (\<lambda>h m. None),
       CopyFile = (\<lambda>h src dst. None),
       CopyDir = (\<lambda>h src dst. None),
       GetDirSize = (\<lambda>h d. Inr 0) \<rparr>"

definition copy_fails_host :: sys where
  "copy_fails_host = boot_host\<lparr>CopyFile := (\<lambda>h src dst. Some (Failure ''copy failed''))\<rparr>"

fun is_measuring :: "event \<Rightarrow> bool" where
  "is_measuring (Ev_GetDirSize d r) = True"
| "is_measuring _ = False"

fun is_populating :: "event \<Rightarrow> bool" where
  "is_populating (Ev_Acquire (PartResource p) r) = True"
| "is_populating (Ev_Release (PartResource p) r) = True"
| "is_populating (Ev_RunLogCommand args r) = True"
| "is_populating (Ev_Mount dev r) = True"
| "is_populating (Ev_Umount m r) = True"
| "is_populating (Ev_CopyDir src dst r) = True"
| "is_populating _ = False"

definition word_volume_size :: "(string \<Rightarrow> 64 word) \<Rightarrow> RawVolume \<Rightarrow> Bytes" where
  "word_volume_size dsz v = (if Size v = 0 then dsz (Path v) + ToBytes (InMegaBytes 2) else Size v)"

definition spec_volume_size :: "(string \<Rightarrow> 64 word) \<Rightarrow> RawVolume \<Rightarrow> nat" where
  "spec_volume_size dsz v =
     (if Size v = 0 then unat (dsz (Path v)) + 2 * 1024 * 1024 else unat (Size v))"

definition spec_next_sector :: "nat \<Rightarrow> nat" where
  "spec_next_sector n = (n div 512 + 1) * 512"

definition spec_image_size :: "nat list \<Rightarrow> nat" where
  "spec_image_size vsizes =
     (let total = sum_list vsizes
      in spec_next_sector (total + total div 10) + 4 * 1024 * 1024)"

definition stable_sizes :: "sys \<Rightarrow> (string \<Rightarrow> 64 word) \<Rightarrow> bool" where
  "stable_sizes s dsz = (\<forall>h p r. GetDirSize s h p = Inr r \<longrightarrow> r = dsz p)"

fun committed_of :: "event \<Rightarrow> (Bytes \<times> Bytes) list" where
  "committed_of (Ev_MakePart p ty st en None) = [(st, en)]"
| "committed_of _ = []"

definition exact_table :: "trace \<Rightarrow> BlockDevice \<Rightarrow> Part list" where
  "exact_table h dev = map (\<lambda>(st, en). PartedPart dev st (en - st)) (concat (map committed_of h))"

definition vol_host :: sys where
  "vol_host = boot_host
     \<lparr> ListParts := (\<lambda>h dev. (exact_table h dev, None)),
       GetDirSize := (\<lambda>h d. Inr 1000) \<rparr>"

definition implicit_size :: "(string \<Rightarrow> 64 word) \<Rightarrow> RawVolume \<Rightarrow> nat" where
  "implicit_size dsz v = unat (dsz (Path v)) + 2 * 1024 * 1024"

definition fits :: "nat list \<Rightarrow> bool" where
  "fits vsizes = (sum_list vsizes + sum_list vsizes div 10 + 512 + 4 * 1024 * 1024 < 2 ^ 64)"

definition spec_round_up_sector :: "nat \<Rightarrow> nat" where
  "spec_round_up_sector n = (n + 511) div 512 * 512"

section \<open>Facts about single calls\<close>

lemma acquired_simps [simp]:
  "acquired [] = []" "acquired (e # h) = acquired_of e @ acquired h"
  "acquired (a @ b) = acquired a @ acquired b"
  by (simp_all add: acquired_def)

lemma released_simps [simp]:
  "released [] = []" "released (e # h) = released_of e @ released h"
  "released (a @ b) = released a @ released b"
  by (simp_all add: released_def)

lemma steps_simps [simp]:
  "steps [] = []" "steps (e # h) = (if is_cleanup e then steps h else e # steps h)"
  "steps (a @ b) = steps a @ steps b"
  by (simp_all add: steps_def)

lemmas do_defs = do_Create_def do_Seek_def do_Write_def do_Close_def do_MkdirAll_def
  do_Acquire_def do_Release_def do_MakeTable_def do_MakePartTillEnd_def do_MakePart_def
  do_ListParts_def do_RunLogCommand_def do_Mount_def do_Umount_def do_CopyFile_def
  do_CopyDir_def do_GetDirSize_def

lemma do_emits:
  "fst (do_Create s h f) = h @ [Ev_Create f (snd (do_Create s h f))]"
  "fst (do_Seek s h f off) = h @ [Ev_Seek f off (snd (do_Seek s h f off))]"
  "fst (do_Write s h f) = h @ [Ev_Write f (snd (do_Write s h f))]"
  "do_Close s f h = h @ [Ev_Close f (fd_Close s h f)]"
  "do_MkdirAll s h d = h @ [Ev_MkdirAll d (os_MkdirAll s h d)]"
  "fst (do_Acquire s h res) = h @ [Ev_Acquire res (snd (do_Acquire s h res))]"
  "do_Release s res h = h @ [Ev_Release res (Release s h res)]"
  "fst (do_MakeTable s h p) = h @ [Ev_MakeTable p (snd (do_MakeTable s h p))]"
  "fst (do_MakePartTillEnd s h p ty ds) = h @ [Ev_MakePartTillEnd p ty ds (snd (do_MakePartTillEnd s h p ty ds))]"
  "fst (do_MakePart s h p ty st en) = h @ [Ev_MakePart p ty st en (snd (do_MakePart s h p ty st en))]"
  "fst (do_ListParts s h dev) = h @ [Ev_ListParts dev (fst (snd (do_ListParts s h dev))) (snd (snd (do_ListParts s h dev)))]"
  "fst (do_RunLogCommand s h args) = h @ [Ev_RunLogCommand args (snd (do_RunLogCommand s h args))]"
  "fst (do_Mount s h dev) = h @ [Ev_Mount dev (snd (do_Mount s h dev))]"
  "do_Umount s m h = h @ [Ev_Umount m (Umount s h m)]"
  "fst (do_CopyFile s h src dst) = h @ [Ev_CopyFile src dst (snd (do_CopyFile s h src dst))]"
  "do_CopyDir s h src dst = h @ [Ev_CopyDir src dst (CopyDir s h src dst)]"
  "fst (do_GetDirSize s h d) = h @ [Ev_GetDirSize d (snd (do_GetDirSize s h d))]"
  by (simp_all add: do_defs Let_def)

lemma acquired_emit: "t = h @ [e] \<Longrightarrow> acquired t = acquired h @ acquired_of e"
  by simp
lemma released_emit: "t = h @ [e] \<Longrightarrow> released t = released h @ released_of e"
  by simp
lemma steps_emit: "t = h @ [e] \<Longrightarrow> steps t = steps h @ (if is_cleanup e then [] else [e])"
  by simp

lemmas acquired_do [simp] = do_emits [THEN acquired_emit]
lemmas released_do [simp] = do_emits [THEN released_emit]
lemmas steps_do [simp] = do_emits [THEN steps_emit]

lemma deferred_simps [simp]:
  "fst (deferred c b) = c (fst b)" "snd (deferred c b) = snd b"
  by (simp_all add: deferred_def)

lemma writeBootTemplate_trace [simp]:
  "acquired (fst (writeBootTemplate s h f d c)) = acquired h"
  "released (fst (writeBootTemplate s h f d c)) = released h"
  by (simp_all add: writeBootTemplate_def split_beta split: option.splits)

lemma writeDeviceMap_trace [simp]:
  "acquired (fst (writeDeviceMap s h f d)) = acquired h"
  "released (fst (writeDeviceMap s h f d)) = released h"
  by (simp_all add: writeDeviceMap_def split_beta split: option.splits)

lemma PrepareGrub_trace [simp]:
  "acquired (fst (PrepareGrub s h folder d k c)) = acquired h"
  "released (fst (PrepareGrub s h folder d k c)) = released h"
  by (simp_all add: PrepareGrub_def split_beta Let_def split: option.splits)

lemma do_cleanup_irrelevant [simp]:
  "do_Create (s\<lparr>Release := rel, Umount := um\<rparr>) = do_Create s"
  "do_Close (s\<lparr>Release := rel, Umount := um\<rparr>) = do_Close s"
  "do_MkdirAll (s\<lparr>Release := rel, Umount := um\<rparr>) = do_MkdirAll s"
  "do_CopyFile (s\<lparr>Release := rel, Umount := um\<rparr>) = do_CopyFile s"
  "do_Acquire (s\<lparr>Release := rel, Umount := um\<rparr>) = do_Acquire s"
  "do_MakeTable (s\<lparr>Release := rel, Umount := um\<rparr>) = do_MakeTable s"
  "do_MakePartTillEnd (s\<lparr>Release := rel, Umount := um\<rparr>) = do_MakePartTillEnd s"
  "do_ListParts (s\<lparr>Release := rel, Umount := um\<rparr>) = do_ListParts s"
  "do_RunLogCommand (s\<lparr>Release := rel, Umount := um\<rparr>) = do_RunLogCommand s"
  "do_Mount (s\<lparr>Release := rel, Umount := um\<rparr>) = do_Mount s"
  "path_Join (s\<lparr>Release := rel, Umount := um\<rparr>) = path_Join s"
  by (simp_all add: fun_eq_iff do_defs)

lemma PrepareGrub_cleanup_irrelevant [simp]:
  "PrepareGrub (s\<lparr>Release := rel, Umount := um\<rparr>) h folder d k c = PrepareGrub s h folder d k c"
  by (simp add: PrepareGrub_def writeBootTemplate_def writeDeviceMap_def)

lemma C5_c:
  "snd (CreateBootImageOnFile (s\<lparr>Release := rel, Umount := um\<rparr>) [] rootFile sz prog cmd)
     = snd (CreateBootImageOnFile s [] rootFile sz prog cmd)"
  by (simp add: CreateBootImageOnFile_def split_beta Let_def NewLoDevice_def NewDevice_def
      split: sum.splits option.splits list.splits Part.splits)

section \<open>The boot image assembler releases what it holds\<close>

text \<open>
  Claim C5. In every run of \<open>CreateBootImageOnFile\<close>, from any history and on any host,
  the resources are released in the reverse of the order in which they were acquired,
  and they are acquired in the order loop device, mapped root device, partition: so the
  partition is released first and the loop device last, on every way out. The error
  returned does not depend on what the release and unmount calls answer, and it is the
  error of the last step that ran (the size conversion when nothing ran).
\<close>

theorem C5_release_in_reverse_order:
  "(\<exists>acq. acquired (fst (CreateBootImageOnFile s h rootFile sz prog cmd)) = acquired h @ acq
      \<and> released (fst (CreateBootImageOnFile s h rootFile sz prog cmd)) = released h @ rev acq
      \<and> prefix (map kind_of acq) [Loop, Mapper, Partition])
   \<and> snd (CreateBootImageOnFile (s\<lparr>Release := rel, Umount := um\<rparr>) h rootFile sz prog cmd)
       = snd (CreateBootImageOnFile s h rootFile sz prog cmd)
   \<and> snd (CreateBootImageOnFile s h rootFile sz prog cmd)
       = (case ToSectors sz of
            Inl e \<Rightarrow> Some e
          | Inr n \<Rightarrow> boot_step_error
                      (last (steps (fst (CreateBootImageOnFile s h rootFile sz prog cmd)))))"
proof (intro conjI)
  show "\<exists>acq. acquired (fst (CreateBootImageOnFile s h rootFile sz prog cmd)) = acquired h @ acq
      \<and> released (fst (CreateBootImageOnFile s h rootFile sz prog cmd)) = released h @ rev acq
      \<and> prefix (map kind_of acq) [Loop, Mapper, Partition]"
    by (simp add: CreateBootImageOnFile_def split_beta Let_def NewLoDevice_def NewDevice_def
        split: sum.splits option.splits list.splits Part.splits)
  show "snd (CreateBootImageOnFile (s\<lparr>Release := rel, Umount := um\<rparr>) h rootFile sz prog cmd)
       = snd (CreateBootImageOnFile s h rootFile sz prog cmd)"
    by (simp add: CreateBootImageOnFile_def split_beta Let_def NewLoDevice_def NewDevice_def
        split: sum.splits option.splits list.splits Part.splits)
  show "snd (CreateBootImageOnFile s h rootFile sz prog cmd)
       = (case ToSectors sz of
            Inl e \<Rightarrow> Some e
          | Inr n \<Rightarrow> boot_step_error
                      (last (steps (fst (CreateBootImageOnFile s h rootFile sz prog cmd)))))"
    by (simp add: CreateBootImageOnFile_def split_beta Let_def NewLoDevice_def NewDevice_def
        split: sum.splits option.splits list.splits Part.splits)
qed

lemma partitioning_simps [simp]:
  "partitioning [] = []"
  "partitioning (e # h) = (if is_partitioning e then e # partitioning h else partitioning h)"
  "partitioning (a @ b) = partitioning a @ partitioning b"
  by (simp_all add: partitioning_def)

lemma partitioning_emit:
  "t = h @ [e] \<Longrightarrow> partitioning t = partitioning h @ (if is_partitioning e then [e] else [])"
  by simp

lemma set_emit: "t = h @ [e] \<Longrightarrow> set t = insert e (set h)"
  by simp

lemmas partitioning_do [simp] = do_emits [THEN partitioning_emit]
lemmas set_do [simp] = do_emits [THEN set_emit]

lemma writeBootTemplate_parts [simp]:
  "partitioning (fst (writeBootTemplate s h f d c)) = partitioning h"
  "Ev_Acquire res r \<in> set (fst (writeBootTemplate s h f d c)) \<longleftrightarrow> Ev_Acquire res r \<in> set h"
  by (simp_all add: writeBootTemplate_def split_beta split: option.splits)

lemma writeDeviceMap_parts [simp]:
  "partitioning (fst (writeDeviceMap s h f d)) = partitioning h"
  "Ev_Acquire res r \<in> set (fst (writeDeviceMap s h f d)) \<longleftrightarrow> Ev_Acquire res r \<in> set h"
  by (simp_all add: writeDeviceMap_def split_beta split: option.splits)

lemma PrepareGrub_parts [simp]:
  "partitioning (fst (PrepareGrub s h folder d k c)) = partitioning h"
  "Ev_Acquire res r \<in> set (fst (PrepareGrub s h folder d k c)) \<longleftrightarrow> Ev_Acquire res r \<in> set h"
  by (simp_all add: PrepareGrub_def split_beta Let_def split: option.splits)

lemmas CBI_unfold = CreateBootImageOnFile_def split_beta Let_def NewLoDevice_def NewDevice_def

lemma CBI_dm_acquired:
  assumes "Ev_Acquire (DmResource d) (Inr rootDevice)
             \<in> set (fst (CreateBootImageOnFile s [] rootFile sz prog cmd))"
  shows "\<exists>n lo. ToSectors sz = Inr n
           \<and> snd (do_Acquire s [] (LoDevice rootFile)) = Inr lo
           \<and> d = DeviceMapperDevice 0 n lo ''hda''
           \<and> snd (do_Acquire s (fst (do_Acquire s [] (LoDevice rootFile))) (DmResource d))
               = Inr rootDevice"
proof (cases "ToSectors sz")
  case (Inl e)
  with assms show ?thesis by (simp add: CBI_unfold)
next
  case (Inr n)
  note n = this
  show ?thesis
  proof (cases "snd (do_Acquire s [] (LoDevice rootFile))")
    case (Inl e)
    with assms n show ?thesis by (simp add: CBI_unfold)
  next
    case (Inr lo)
    note lo = this
    show ?thesis
    proof (cases "snd (do_Acquire s (fst (do_Acquire s [] (LoDevice rootFile)))
                    (DmResource (DeviceMapperDevice 0 n lo ''hda'')))")
      case (Inl e)
      with assms n lo show ?thesis by (simp add: CBI_unfold)
    next
      case (Inr dev)
      with assms n lo show ?thesis
        by (simp add: CBI_unfold split: sum.splits option.splits list.splits Part.splits)
    qed
  qed
qed


section \<open>The partition table of the boot image\<close>

text \<open>
  Claim C6. In a run of \<open>CreateBootImageOnFile\<close> that gets its root device from the
  device mapper, the mapping was asked for under the name \<open>hda\<close>, from sector 0, over
  the loop device of the image file. The partitioning calls of the run are then, in this
  order: a table on the mapped device, one partition of type \<open>primary\<close> from 2 MB to the
  end of the disk on the same device, and one enumeration. If the enumeration gives no
  partition and no error, the call fails with \<open>No parts created\<close> and acquires nothing
  more. If its first partition is backed by the device mapper, that partition is
  acquired under the device name \<open>hda1\<close>; any other first partition is acquired as it is.
\<close>

theorem C6_boot_partition_table:
  assumes "Ev_Acquire (DmResource d) (Inr rootDevice)
             \<in> set (fst (CreateBootImageOnFile s [] rootFile sz prog cmd))"
  shows "DeviceName d = ''hda'' \<and> start d = 0 \<and> ToSectors sz = Inr (sectors d)
       \<and> Ev_Acquire (LoDevice rootFile) (Inr (orginalDevice d))
            \<in> set (fst (CreateBootImageOnFile s [] rootFile sz prog cmd))
       \<and> (\<exists>r1 r2 parts err.
            partitioning (fst (CreateBootImageOnFile s [] rootFile sz prog cmd))
              = [Ev_MakeTable (MsDosPartioner (Name rootDevice)) r1,
                 Ev_MakePartTillEnd (MsDosPartioner (Name rootDevice)) ''primary'' (InMegaBytes 2) r2,
                 Ev_ListParts rootDevice parts err]
          \<and> (parts = [] \<and> err = None \<longrightarrow>
                snd (CreateBootImageOnFile s [] rootFile sz prog cmd)
                  = Some (errors_New ''No parts created'')
              \<and> acquired (fst (CreateBootImageOnFile s [] rootFile sz prog cmd))
                  = [LoDevice rootFile, DmResource d])
          \<and> (\<forall>dm ps. parts = DmPart dm # ps \<and> err = None \<longrightarrow>
                (\<exists>r. Ev_Acquire
                       (PartResource (DmPart (DeviceMapperDevice (start dm) (sectors dm)
                                                (orginalDevice dm) ''hda1''))) r
                     \<in> set (fst (CreateBootImageOnFile s [] rootFile sz prog cmd))))
          \<and> (\<forall>dev off ext ps. parts = PartedPart dev off ext # ps \<and> err = None \<longrightarrow>
                (\<exists>r. Ev_Acquire (PartResource (PartedPart dev off ext)) r
                     \<in> set (fst (CreateBootImageOnFile s [] rootFile sz prog cmd)))))
       \<and> unat (ToBytes (InMegaBytes 2)) = 2 * 1024 * 1024"
proof -
  obtain n lo where f: "ToSectors sz = Inr n"
      "snd (do_Acquire s [] (LoDevice rootFile)) = Inr lo"
      "d = DeviceMapperDevice 0 n lo ''hda''"
      "snd (do_Acquire s (fst (do_Acquire s [] (LoDevice rootFile)))
         (DmResource (DeviceMapperDevice 0 n lo ''hda''))) = Inr rootDevice"
    using CBI_dm_acquired [OF assms] by blast
  have a: "DeviceName d = ''hda'' \<and> start d = 0 \<and> ToSectors sz = Inr (sectors d)"
    using f by simp
  have b: "Ev_Acquire (LoDevice rootFile) (Inr (orginalDevice d))
            \<in> set (fst (CreateBootImageOnFile s [] rootFile sz prog cmd))"
    using f by (simp add: CBI_unfold split: sum.splits option.splits list.splits Part.splits)
  have c: "\<exists>r1 r2 parts err.
            partitioning (fst (CreateBootImageOnFile s [] rootFile sz prog cmd))
              = [Ev_MakeTable (MsDosPartioner (Name rootDevice)) r1,
                 Ev_MakePartTillEnd (MsDosPartioner (Name rootDevice)) ''primary'' (InMegaBytes 2) r2,
                 Ev_ListParts rootDevice parts err]
          \<and> (parts = [] \<and> err = None \<longrightarrow>
                snd (CreateBootImageOnFile s [] rootFile sz prog cmd)
                  = Some (errors_New ''No parts created'')
              \<and> acquired (fst (CreateBootImageOnFile s [] rootFile sz prog cmd))
                  = [LoDevice rootFile, DmResource d])
          \<and> (\<forall>dm ps. parts = DmPart dm # ps \<and> err = None \<longrightarrow>
                (\<exists>r. Ev_Acquire
                       (PartResource (DmPart (DeviceMapperDevice (start dm) (sectors dm)
                                                (orginalDevice dm) ''hda1''))) r
                     \<in> set (fst (CreateBootImageOnFile s [] rootFile sz prog cmd))))
          \<and> (\<forall>dev off ext ps. parts = PartedPart dev off ext # ps \<and> err = None \<longrightarrow>
                (\<exists>r. Ev_Acquire (PartResource (PartedPart dev off ext)) r
                     \<in> set (fst (CreateBootImageOnFile s [] rootFile sz prog cmd))))"
    using f by (auto simp add: CBI_unfold split: sum.splits option.splits list.splits Part.splits)
  have e: "unat (ToBytes (InMegaBytes 2)) = 2 * 1024 * 1024"
    by simp
  from a b c e show ?thesis by blast
qed

lemma executes_simps [simp]:
  "executes [] = []" "executes (e # h) = execute_of e @ executes h"
  "executes (a @ b) = executes a @ executes b"
  by (simp_all add: executes_def)

lemma created_simps [simp]:
  "created [] = []" "created (e # h) = created_of e @ created h"
  "created (a @ b) = created a @ created b"
  by (simp_all add: created_def)

lemma executes_emit: "t = h @ [e] \<Longrightarrow> executes t = executes h @ execute_of e"
  by simp
lemma created_emit: "t = h @ [e] \<Longrightarrow> created t = created h @ created_of e"
  by simp

lemmas executes_do [simp] = do_emits [THEN executes_emit]
lemmas created_do [simp] = do_emits [THEN created_emit]

section \<open>The bootloader files\<close>

lemma writeBootTemplate_files:
  "executes (fst (writeBootTemplate s h f d c)) =
     executes h @ (case snd (writeBootTemplate s h f d c) of None \<Rightarrow> [(f, GrubTemplate d c)] | Some e \<Rightarrow> [])"
  "created (fst (writeBootTemplate s h f d c)) =
     created h @ (case snd (writeBootTemplate s h f d c) of None \<Rightarrow> [f] | Some e \<Rightarrow> [])"
  "Ev_Acquire res r \<in> set (fst (writeBootTemplate s h f d c)) \<longleftrightarrow> Ev_Acquire res r \<in> set h"
  "Ev_Mount dev m \<in> set (fst (writeBootTemplate s h f d c)) \<longleftrightarrow> Ev_Mount dev m \<in> set h"
  by (simp_all add: writeBootTemplate_def split_beta split: option.splits)

lemma writeDeviceMap_files:
  "executes (fst (writeDeviceMap s h f d)) =
     executes h @ (case snd (writeDeviceMap s h f d) of None \<Rightarrow> [(f, DeviceMapFile d)] | Some e \<Rightarrow> [])"
  "created (fst (writeDeviceMap s h f d)) =
     created h @ (case snd (writeDeviceMap s h f d) of None \<Rightarrow> [f] | Some e \<Rightarrow> [])"
  "Ev_Acquire res r \<in> set (fst (writeDeviceMap s h f d)) \<longleftrightarrow> Ev_Acquire res r \<in> set h"
  "Ev_Mount dev m \<in> set (fst (writeDeviceMap s h f d)) \<longleftrightarrow> Ev_Mount dev m \<in> set h"
  by (simp_all add: writeDeviceMap_def split_beta split: option.splits)

lemma PrepareGrub_files:
  "executes (fst (PrepareGrub s h folder d k c)) =
     executes h @ take (length (created (fst (PrepareGrub s h folder d k c))) - length (created h))
                    (spec_grub_files s folder d c)"
  by (simp add: PrepareGrub_def split_beta Let_def writeBootTemplate_files writeDeviceMap_files
        spec_grub_files_def GrubTemplate_def DeviceMapFile_def newline_def
      split: option.splits)

lemma PrepareGrub_success:
  "snd (PrepareGrub s h folder d k c) = None \<Longrightarrow>
     executes (fst (PrepareGrub s h folder d k c)) = executes h @ spec_grub_files s folder d c"
  by (simp add: PrepareGrub_def split_beta Let_def writeBootTemplate_files writeDeviceMap_files
        spec_grub_files_def GrubTemplate_def DeviceMapFile_def newline_def
      split: option.splits)

lemma PrepareGrub_mount [simp]:
  "Ev_Mount dev m \<in> set (fst (PrepareGrub s h folder d k c)) \<longleftrightarrow> Ev_Mount dev m \<in> set h"
  by (simp add: PrepareGrub_def split_beta Let_def writeBootTemplate_files writeDeviceMap_files
      split: option.splits)

lemmas eval_defs = do_defs deferred_def ToSectors_def SectorSize_def
      NewLoDevice_def NewDevice_def PrepareGrub_def writeBootTemplate_def writeDeviceMap_def Let_def
      GrubTemplate_def DeviceMapFile_def ProgramName_def newline_def

text \<open>
  Claim C7. In a run of \<open>CreateBootImageOnFile\<close> that has its root device \<open>D\<close> from
  the device mapper and has mounted the boot partition, the files rendered are, in this
  order and as far as their creation succeeded: \<open>boot/grub/menu.lst\<close> and
  \<open>boot/grub/grub.conf\<close> under the mount point, both with the fixed menu text ending in
  the lines \<open>root (hd0,0)\<close> and \<open>kernel /boot/program.bin C\<close> for the command line
  \<open>C\<close> of the caller, and \<open>boot/grub/map\<close> with the single line \<open>(hd0) D\<close>. Nothing else
  is rendered.
\<close>

theorem C7_bootloader_files:
  assumes "Ev_Acquire (DmResource d) (Inr rootDevice)
             \<in> set (fst (CreateBootImageOnFile s [] rootFile sz prog cmd))"
      and "Ev_Mount bootDevice (Inr mntPoint)
             \<in> set (fst (CreateBootImageOnFile s [] rootFile sz prog cmd))"
  shows "executes (fst (CreateBootImageOnFile s [] rootFile sz prog cmd))
           = take (length (created (fst (CreateBootImageOnFile s [] rootFile sz prog cmd))))
               (spec_grub_files s mntPoint (Name rootDevice) cmd)"
proof -
  obtain n lo where f: "ToSectors sz = Inr n"
      "snd (do_Acquire s [] (LoDevice rootFile)) = Inr lo"
      "d = DeviceMapperDevice 0 n lo ''hda''"
      "snd (do_Acquire s (fst (do_Acquire s [] (LoDevice rootFile)))
         (DmResource (DeviceMapperDevice 0 n lo ''hda''))) = Inr rootDevice"
    using CBI_dm_acquired [OF assms(1)] by blast
  show ?thesis
    using f assms(2)
    by (auto simp add: CBI_unfold PrepareGrub_files
        split: sum.splits option.splits list.splits Part.splits)
qed

lemma boot_host_run:
  "CreateBootImageOnFile boot_host [] ''img'' (InMegaBytes 64) ''prog'' ''console=ttyS0'' =
     ([Ev_Acquire (LoDevice ''img'') (Inr (BlockDevice ''/dev/loop0'')),
        Ev_Acquire
         (DmResource
           (DeviceMapperDevice 0 131072 (BlockDevice ''/dev/loop0'') ''hda''))
         (Inr (BlockDevice ''/dev/mapper/hda'')),
        Ev_MakeTable (MsDosPartioner ''/dev/mapper/hda'') None,
        Ev_MakePartTillEnd (MsDosPartioner ''/dev/mapper/hda'') ''primary''
         (InMegaBytes 2) None,
        Ev_ListParts (BlockDevice ''/dev/mapper/hda'')
         [DmPart
           (DeviceMapperDevice 4096 126976 (BlockDevice ''/dev/mapper/hda'')
             ''part1'')]
         None,
        Ev_Acquire
         (PartResource
           (DmPart
             (DeviceMapperDevice 4096 126976 (BlockDevice ''/dev/mapper/hda'')
               ''hda1'')))
         (Inr (BlockDevice ''/dev/mapper/hda1'')),
        Ev_RunLogCommand
         [''mkfs'', ''-L'', ''boot'', ''-I'', ''128'', ''-t'', ''ext2'',
          ''/dev/mapper/hda1'']
         None,
        Ev_Mount (BlockDevice ''/dev/mapper/hda1'') (Inr ''/mnt''),
        Ev_MkdirAll ''/mnt/boot/grub'' None,
        Ev_CopyFile ''prog'' ''/mnt/boot/program.bin'' None,
        Ev_Create ''/mnt/boot/grub/menu.lst'' None,
        Ev_Execute ''/mnt/boot/grub/menu.lst''
         ''default=0\<newline>fallback=1\<newline>timeout=1\<newline>hiddenmenu\<newline>\<newline>title Unik\<newline>root (hd0,0)\<newline>kernel /boot/program.bin console=ttyS0\<newline>'',
        Ev_Close ''/mnt/boot/grub/menu.lst'' None,
        Ev_Create ''/mnt/boot/grub/grub.conf'' None,
        Ev_Execute ''/mnt/boot/grub/grub.conf''
         ''default=0\<newline>fallback=1\<newline>timeout=1\<newline>hiddenmenu\<newline>\<newline>title Unik\<newline>root (hd0,0)\<newline>kernel /boot/program.bin console=ttyS0\<newline>'',
        Ev_Close ''/mnt/boot/grub/grub.conf'' None,
        Ev_Create ''/mnt/boot/grub/map'' None,
        Ev_Execute ''/mnt/boot/grub/map'' ''(hd0) /dev/mapper/hda\<newline>'',
        Ev_Close ''/mnt/boot/grub/map'' None,
        Ev_RunLogCommand
         [''grub-install'', ''--no-floppy'', ''--root-directory=/mnt'',
          ''/dev/mapper/hda'']
         None,
        Ev_Umount ''/mnt'' None,
        Ev_Release
         (PartResource
           (DmPart
             (DeviceMapperDevice 4096 126976 (BlockDevice ''/dev/mapper/hda'')
               ''hda1'')))
         None,
        Ev_Release
         (DmResource
           (DeviceMapperDevice 0 131072 (BlockDevice ''/dev/loop0'') ''hda''))
         None,
        Ev_Release (LoDevice ''img'') None],
       None)"
  by (simp add: CreateBootImageOnFile_def boot_host_def eval_defs)

lemma path_Join_boot_host:
  "path_Join boot_host elems = foldr (\<lambda>e acc. if acc = [] then e else e @ ''/'' @ acc) elems []"
  by (simp add: boot_host_def)

theorem C7_bootloader_files_witness:
  "Ev_Acquire (DmResource (DeviceMapperDevice 0 131072 (BlockDevice ''/dev/loop0'') ''hda''))
       (Inr (BlockDevice ''/dev/mapper/hda''))
     \<in> set (fst (CreateBootImageOnFile boot_host [] ''img'' (InMegaBytes 64) ''prog'' ''console=ttyS0''))
   \<and> Ev_Mount (BlockDevice ''/dev/mapper/hda1'') (Inr ''/mnt'')
     \<in> set (fst (CreateBootImageOnFile boot_host [] ''img'' (InMegaBytes 64) ''prog'' ''console=ttyS0''))
   \<and> executes (fst (CreateBootImageOnFile boot_host [] ''img'' (InMegaBytes 64) ''prog'' ''console=ttyS0''))
       = [(''/mnt/boot/grub/menu.lst'',
           ''default=0\<newline>fallback=1\<newline>timeout=1\<newline>hiddenmenu\<newline>\<newline>title Unik\<newline>root (hd0,0)\<newline>kernel /boot/program.bin console=ttyS0\<newline>''),
          (''/mnt/boot/grub/grub.conf'',
           ''default=0\<newline>fallback=1\<newline>timeout=1\<newline>hiddenmenu\<newline>\<newline>title Unik\<newline>root (hd0,0)\<newline>kernel /boot/program.bin console=ttyS0\<newline>''),
          (''/mnt/boot/grub/map'', ''(hd0) /dev/mapper/hda\<newline>'')]"
proof -
  have a: "Ev_Acquire (DmResource (DeviceMapperDevice 0 131072 (BlockDevice ''/dev/loop0'') ''hda''))
       (Inr (BlockDevice ''/dev/mapper/hda''))
     \<in> set (fst (CreateBootImageOnFile boot_host [] ''img'' (InMegaBytes 64) ''prog'' ''console=ttyS0''))"
    by (simp add: boot_host_run)
  have b: "Ev_Mount (BlockDevice ''/dev/mapper/hda1'') (Inr ''/mnt'')
     \<in> set (fst (CreateBootImageOnFile boot_host [] ''img'' (InMegaBytes 64) ''prog'' ''console=ttyS0''))"
    by (simp add: boot_host_run)
  have c: "length (created (fst (CreateBootImageOnFile boot_host [] ''img'' (InMegaBytes 64) ''prog'' ''console=ttyS0''))) = 3"
    by (simp add: boot_host_run)
  show ?thesis
    using a b C7_bootloader_files [OF a b]
    by (simp add: c spec_grub_files_def path_Join_boot_host boot_host_run)
qed

theorem C6_boot_partition_table_witness:
  "Ev_Acquire (DmResource (DeviceMapperDevice 0 131072 (BlockDevice ''/dev/loop0'') ''hda''))
       (Inr (BlockDevice ''/dev/mapper/hda''))
     \<in> set (fst (CreateBootImageOnFile boot_host [] ''img'' (InMegaBytes 64) ''prog'' ''console=ttyS0''))
   \<and> ToSectors (InMegaBytes 64) = Inr 131072
   \<and> Ev_Acquire (LoDevice ''img'') (Inr (BlockDevice ''/dev/loop0''))
     \<in> set (fst (CreateBootImageOnFile boot_host [] ''img'' (InMegaBytes 64) ''prog'' ''console=ttyS0''))"
proof -
  have a: "Ev_Acquire (DmResource (DeviceMapperDevice 0 131072 (BlockDevice ''/dev/loop0'') ''hda''))
       (Inr (BlockDevice ''/dev/mapper/hda''))
     \<in> set (fst (CreateBootImageOnFile boot_host [] ''img'' (InMegaBytes 64) ''prog'' ''console=ttyS0''))"
    by (simp add: boot_host_run)
  show ?thesis
    using a C6_boot_partition_table [OF a] by simp
qed

text \<open>
  Claim C1 fails on the code. On a host where everything succeeds except the copy of the
  program into the boot partition, \<open>PrepareGrub\<close> returns the error of the copy, and
  \<open>CreateBootImageOnFile\<close> goes on to install the bootloader and returns no error: line
  117 drops what \<open>PrepareGrub\<close> returns.
\<close>

theorem C1_PrepareGrub_error_dropped:
  "snd (PrepareGrub copy_fails_host [] ''/mnt'' ''/dev/mapper/hda'' ''prog'' ''console=ttyS0'')
     = Some (Failure ''copy failed'')
   \<and> CreateBootImageOnFile copy_fails_host [] ''img'' (InMegaBytes 64) ''prog'' ''console=ttyS0'' =
     ([Ev_Acquire (LoDevice ''img'') (Inr (BlockDevice ''/dev/loop0'')),
        Ev_Acquire
         (DmResource
           (DeviceMapperDevice 0 131072 (BlockDevice ''/dev/loop0'') ''hda''))
         (Inr (BlockDevice ''/dev/mapper/hda'')),
        Ev_MakeTable (MsDosPartioner ''/dev/mapper/hda'') None,
        Ev_MakePartTillEnd (MsDosPartioner ''/dev/mapper/hda'') ''primary''
         (InMegaBytes 2) None,
        Ev_ListParts (BlockDevice ''/dev/mapper/hda'')
         [DmPart
           (DeviceMapperDevice 4096 126976 (BlockDevice ''/dev/mapper/hda'')
             ''part1'')]
         None,
        Ev_Acquire
         (PartResource
           (DmPart
             (DeviceMapperDevice 4096 126976 (BlockDevice ''/dev/mapper/hda'')
               ''hda1'')))
         (Inr (BlockDevice ''/dev/mapper/hda1'')),
        Ev_RunLogCommand
         [''mkfs'', ''-L'', ''boot'', ''-I'', ''128'', ''-t'', ''ext2'',
          ''/dev/mapper/hda1'']
         None,
        Ev_Mount (BlockDevice ''/dev/mapper/hda1'') (Inr ''/mnt''),
        Ev_MkdirAll ''/mnt/boot/grub'' None,
        Ev_CopyFile ''prog'' ''/mnt/boot/program.bin''
         (Some (Failure ''copy failed'')),
        Ev_RunLogCommand
         [''grub-install'', ''--no-floppy'', ''--root-directory=/mnt'',
          ''/dev/mapper/hda'']
         None,
        Ev_Umount ''/mnt'' None,
        Ev_Release
         (PartResource
           (DmPart
             (DeviceMapperDevice 4096 126976 (BlockDevice ''/dev/mapper/hda'')
               ''hda1'')))
         None,
        Ev_Release
         (DmResource
           (DeviceMapperDevice 0 131072 (BlockDevice ''/dev/loop0'') ''hda''))
         None,
        Ev_Release (LoDevice ''img'') None],
       None)"
  by (simp add: CreateBootImageOnFile_def copy_fails_host_def boot_host_def eval_defs)

lemma and_not_511: "(x :: 64 word) AND NOT 511 = push_bit 9 (drop_bit 9 x)"
proof -
  have "(511 :: 64 word) = mask 9" by (simp add: mask_eq_exp_minus_1)
  then show ?thesis
    by (simp add: bit_eq_iff bit_simps) (auto simp: bit_simps)
qed

lemma unat_push_drop_9: "unat (push_bit 9 (drop_bit 9 (x::64 word))) = unat x div 512 * 512"
proof -
  have d: "unat (drop_bit 9 x) = unat x div 512"
    by (simp add: unat_drop_bit_eq drop_bit_eq_div unat_div)
  have "unat x div 512 * 512 \<le> unat x" by simp
  also have "unat x < 2 ^ 64" using unsigned_less [of x] by simp
  finally have lt: "unat x div 512 * 512 < 2 ^ 64" .
  have "unat (push_bit 9 (drop_bit 9 x)) = take_bit 64 (push_bit 9 (unat (drop_bit 9 x)))"
    by (simp add: unsigned_push_bit_eq)
  also have "\<dots> = take_bit 64 (unat x div 512 * 512)"
    by (simp add: d push_bit_eq_mult)
  also have "\<dots> = unat x div 512 * 512"
    using lt by (simp add: take_bit_nat_eq_self)
  finally show ?thesis .
qed

lemma unat_sector_floor:
  "unat ((x :: 64 word) AND NOT (SectorSize - 1)) = unat x div 512 * 512"
proof -
  have "SectorSize - 1 = (511 :: 64 word)" by (simp add: SectorSize_def)
  then show ?thesis by (simp only: and_not_511 unat_push_drop_9)
qed

lemma unat_add_no_wrap:
  fixes a b :: "64 word"
  shows "unat a + unat b < 2 ^ 64 \<Longrightarrow> unat (a + b) = unat a + unat b"
  by (simp add: unat_word_ariths take_bit_nat_eq_self unsigned_take_bit_eq)

lemma unat_slack:
  fixes t :: "64 word"
  assumes "512 + unat t + unat t div 10 < 2 ^ 64"
  shows "unat (SectorSize + t + t div 10) = 512 + unat t + unat t div 10"
proof -
  have d: "unat (t div 10) = unat t div 10" by (simp add: unat_div)
  have s: "unat SectorSize = 512" by (simp add: SectorSize_def)
  have 1: "unat (SectorSize + t) = 512 + unat t"
    using assms s by (simp add: unat_add_no_wrap)
  show ?thesis using assms 1 d by (simp add: unat_add_no_wrap)
qed

lemma unat_image_size:
  fixes t :: "64 word"
  assumes "unat t + unat t div 10 + 512 + 4 * 1024 * 1024 < 2 ^ 64"
  shows "unat (((SectorSize + t + t div 10) AND NOT (SectorSize - 1)) + ToBytes (InMegaBytes 4))
           = spec_next_sector (unat t + unat t div 10) + 4 * 1024 * 1024"
proof -
  let ?x = "SectorSize + t + t div 10"
  have x: "unat ?x = 512 + unat t + unat t div 10"
    using assms by (intro unat_slack) simp
  have f: "unat (?x AND NOT (SectorSize - 1)) = (512 + unat t + unat t div 10) div 512 * 512"
    by (simp only: unat_sector_floor x)
  have le: "(512 + unat t + unat t div 10) div 512 * 512 \<le> 512 + unat t + unat t div 10"
    by simp
  have m: "unat (ToBytes (InMegaBytes 4)) = 4 * 1024 * 1024" by simp
  have b: "unat (?x AND NOT (SectorSize - 1)) + unat (ToBytes (InMegaBytes 4)) < 2 ^ 64"
    unfolding f m using assms le by linarith
  have "unat ((?x AND NOT (SectorSize - 1)) + ToBytes (InMegaBytes 4))
          = unat (?x AND NOT (SectorSize - 1)) + unat (ToBytes (InMegaBytes 4))"
    using b by (rule unat_add_no_wrap)
  also have "\<dots> = (512 + unat t + unat t div 10) div 512 * 512 + 4 * 1024 * 1024"
    by (simp only: f m)
  also have "(512 + unat t + unat t div 10) div 512 = (unat t + unat t div 10) div 512 + 1"
    by simp
  finally show ?thesis by (simp add: spec_next_sector_def)
qed

lemma unat_sum_list:
  fixes g :: "'a \<Rightarrow> 64 word"
  assumes "sum_list (map f xs) + unat a < 2 ^ 64" and "\<forall>x \<in> set xs. unat (g x) = f x"
  shows "unat (a + sum_list (map g xs)) = unat a + sum_list (map f xs)"
  using assms
proof (induction xs arbitrary: a)
  case Nil
  then show ?case by simp
next
  case (Cons x xs)
  have gx: "unat (g x) = f x" using Cons.prems by simp
  have ax: "unat (a + g x) = unat a + f x"
    using Cons.prems gx by (simp add: unat_add_no_wrap)
  have "unat ((a + g x) + sum_list (map g xs)) = unat (a + g x) + sum_list (map f xs)"
    using Cons.prems ax by (intro Cons.IH) simp_all
  then show ?case using ax by (simp add: add.assoc)
qed

lemma unat_word_volume_size:
  assumes "spec_volume_size dsz v < 2 ^ 64"
  shows "unat (word_volume_size dsz v) = spec_volume_size dsz v"
proof (cases "Size v = 0")
  case True
  have m: "unat (ToBytes (InMegaBytes 2)) = 2 * 1024 * 1024" by simp
  have b: "unat (dsz (Path v)) + unat (ToBytes (InMegaBytes 2)) < 2 ^ 64"
    unfolding m using assms True by (simp add: spec_volume_size_def)
  have "unat (dsz (Path v) + ToBytes (InMegaBytes 2)) = unat (dsz (Path v)) + unat (ToBytes (InMegaBytes 2))"
    using b by (rule unat_add_no_wrap)
  then show ?thesis using True by (simp add: word_volume_size_def spec_volume_size_def)
next
  case False
  then show ?thesis by (simp add: word_volume_size_def spec_volume_size_def)
qed

section \<open>What each phase adds to the trace\<close>

lemma emit_frame: "t = h @ [e] \<Longrightarrow> P e \<Longrightarrow> \<exists>u. t = h @ u \<and> list_all P u"
  by simp

lemma frame_trans:
  "\<exists>u. b = a @ u \<and> list_all P u \<Longrightarrow> \<exists>u. c = b @ u \<and> list_all P u
     \<Longrightarrow> \<exists>u. c = a @ u \<and> list_all P u"
  by auto

lemma frame_refl: "\<exists>u. a = a @ u \<and> list_all P u"
  by simp

lemma volume_sizes_frame:
  "\<exists>u. fst (volume_sizes s h vols sizes tot) = h @ u \<and> list_all is_measuring u"
proof (induction vols arbitrary: h sizes tot)
  case Nil
  then show ?case by simp
next
  case (Cons v vols)
  show ?case
  proof (cases "Size v = 0")
    case False
    then show ?thesis using Cons.IH by (simp add: Let_def)
  next
    case True
    let ?d = "do_GetDirSize s h (Path v)"
    have a: "\<exists>u. fst ?d = h @ u \<and> list_all is_measuring u"
      by (rule emit_frame [OF do_emits(17)]) simp
    show ?thesis
    proof (cases "snd ?d")
      case (Inl e)
      then show ?thesis using a True by (simp add: split_beta)
    next
      case (Inr n)
      then show ?thesis
        using True frame_trans [OF a Cons.IH]
        by (simp add: split_beta Let_def)
    qed
  qed
qed

lemma measure_volumes_frame:
  "\<exists>u. fst (measure_volumes s h vols sizes keys tot) = h @ u \<and> list_all is_measuring u"
proof (induction vols arbitrary: h sizes keys tot)
  case Nil
  then show ?case by simp
next
  case (Cons kv vols)
  obtain k v where kv: "kv = (k, v)" by (cases kv)
  let ?d = "do_GetDirSize s h (Path v)"
  have a: "\<exists>u. fst ?d = h @ u \<and> list_all is_measuring u"
    by (rule emit_frame [OF do_emits(17)]) simp
  show ?case
  proof (cases "snd ?d")
    case (Inl e)
    then show ?thesis using a kv by (simp add: split_beta)
  next
    case (Inr n)
    then show ?thesis
      using kv frame_trans [OF a Cons.IH]
      by (simp add: split_beta Let_def)
  qed
qed

lemma layout_frame:
  "\<exists>u. fst (layout s h p dev st szs) = h @ u \<and> list_all is_partitioning u"
proof (induction szs arbitrary: h st)
  case Nil
  then show ?case by simp
next
  case (Cons sz szs)
  let ?m = "do_MakePart s h p ''ext2'' st (st + sz)"
  let ?l = "do_ListParts s (fst ?m) dev"
  have a: "\<exists>u. fst ?m = h @ u \<and> list_all is_partitioning u"
    by (rule emit_frame [OF do_emits(10)]) simp
  have b: "\<exists>u. fst ?l = fst ?m @ u \<and> list_all is_partitioning u"
    by (rule emit_frame [OF do_emits(11)]) simp
  note ab = frame_trans [OF a b]
  show ?case
    using a ab frame_trans [OF ab Cons.IH]
    by (simp add: split_beta Let_def split: option.splits)
qed

lemma formatDeviceAndCopyContents_frame:
  "\<exists>u. fst (formatDeviceAndCopyContents s h folder dev) = h @ u \<and> list_all is_populating u"
  by (simp add: formatDeviceAndCopyContents_def split_beta do_emits split: option.splits sum.splits)

lemma copyToPart_frame:
  "\<exists>u. fst (copyToPart s h folder part) = h @ u \<and> list_all is_populating u"
proof -
  let ?a = "do_Acquire s h (PartResource part)"
  have a: "\<exists>u. fst ?a = h @ u \<and> list_all is_populating u"
    by (rule emit_frame [OF do_emits(6)]) simp
  show ?thesis
  proof (cases "snd ?a")
    case (Inl e)
    then show ?thesis using a by (simp add: copyToPart_def split_beta)
  next
    case (Inr d)
    obtain u where u: "fst (formatDeviceAndCopyContents s (fst ?a) folder d) = fst ?a @ u"
        "list_all is_populating u"
      using formatDeviceAndCopyContents_frame by blast
    obtain w where w: "fst ?a = h @ w" "list_all is_populating w" using a by blast
    show ?thesis
      using Inr u w by (simp add: copyToPart_def split_beta do_emits(7))
  qed
qed

lemma populate_frame:
  "\<exists>u. fst (populate s h parts i dirs) = h @ u \<and> list_all is_populating u"
proof (induction dirs arbitrary: h i)
  case Nil
  then show ?case by simp
next
  case (Cons d dirs)
  show ?case
    using frame_trans [OF copyToPart_frame Cons.IH] by simp
qed

lemma frame_mem:
  "\<exists>u. t = h @ u \<and> list_all P u \<Longrightarrow> \<not> P e \<Longrightarrow> e \<in> set t \<longleftrightarrow> e \<in> set h"
  by (auto simp: list_all_iff)

lemmas volume_sizes_mem = frame_mem [OF volume_sizes_frame]
lemmas measure_volumes_mem = frame_mem [OF measure_volumes_frame]
lemmas layout_mem = frame_mem [OF layout_frame]
lemmas populate_mem = frame_mem [OF populate_frame]
lemmas copyToPart_mem = frame_mem [OF copyToPart_frame]
lemmas formatDeviceAndCopyContents_mem = frame_mem [OF formatDeviceAndCopyContents_frame]

section \<open>The size of the image file\<close>

lemma stable_sizesD: "stable_sizes s dsz \<Longrightarrow> snd (do_GetDirSize s h p) = Inr r \<Longrightarrow> r = dsz p"
  by (simp add: stable_sizes_def do_GetDirSize_def Let_def)

lemma volume_sizes_result:
  assumes "stable_sizes s dsz"
      and "snd (volume_sizes s h vols sizes tot) = Inr (sizes', tot')"
  shows "sizes' = sizes @ map (word_volume_size dsz) vols
       \<and> tot' = tot + sum_list (map (word_volume_size dsz) vols)"
  using assms(2)
proof (induction vols arbitrary: h sizes tot)
  case Nil
  then show ?case by simp
next
  case (Cons v vols)
  show ?case
  proof (cases "Size v = 0")
    case False
    with Cons.prems
    have "snd (volume_sizes s h vols (sizes @ [Size v]) (tot + Size v)) = Inr (sizes', tot')"
      by (simp add: Let_def)
    from Cons.IH [OF this] False show ?thesis
      by (simp add: word_volume_size_def add.assoc)
  next
    case True
    let ?d = "do_GetDirSize s h (Path v)"
    from Cons.prems True obtain n where n: "snd ?d = Inr n"
      by (cases "snd ?d") (simp_all add: split_beta)
    have nd: "n = dsz (Path v)" using stable_sizesD [OF assms(1) n] .
    from Cons.prems True n
    have "snd (volume_sizes s (fst ?d) vols (sizes @ [n + ToBytes (InMegaBytes 2)])
                (tot + (n + ToBytes (InMegaBytes 2)))) = Inr (sizes', tot')"
      by (simp add: split_beta Let_def)
    from Cons.IH [OF this] True nd show ?thesis
      by (simp add: word_volume_size_def add.assoc)
  qed
qed

lemma measure_volumes_result:
  assumes "stable_sizes s dsz"
      and "snd (measure_volumes s h vols sizes keys tot) = Inr (sizes', keys', tot')"
  shows "keys' = keys @ map fst vols
       \<and> tot' = tot + sum_list (map (\<lambda>kv. dsz (Path (snd kv)) + ToBytes (InMegaBytes 2)) vols)"
  using assms(2)
proof (induction vols arbitrary: h sizes keys tot)
  case Nil
  then show ?case by simp
next
  case (Cons kv vols)
  obtain k v where kv: "kv = (k, v)" by (cases kv)
  let ?d = "do_GetDirSize s h (Path v)"
  from Cons.prems kv obtain n where n: "snd ?d = Inr n"
    by (cases "snd ?d") (simp_all add: split_beta)
  have nd: "n = dsz (Path v)" using stable_sizesD [OF assms(1) n] .
  from Cons.prems kv n
  have "snd (measure_volumes s (fst ?d) vols (sizes(k \<mapsto> n + ToBytes (InMegaBytes 2)))
              (keys @ [k]) (tot + (n + ToBytes (InMegaBytes 2)))) = Inr (sizes', keys', tot')"
    by (simp add: split_beta Let_def size_at_def)
  from Cons.IH [OF this] kv nd show ?case
    by (simp add: add.assoc)
qed

lemma unat_total:
  assumes "sum_list (map (spec_volume_size dsz) vols) < 2 ^ 64"
  shows "unat (sum_list (map (word_volume_size dsz) vols)) = sum_list (map (spec_volume_size dsz) vols)"
proof -
  have each: "\<forall>v \<in> set vols. unat (word_volume_size dsz v) = spec_volume_size dsz v"
  proof
    fix v assume v: "v \<in> set vols"
    then have "spec_volume_size dsz v \<le> sum_list (map (spec_volume_size dsz) vols)"
      by (simp add: member_le_sum_list)
    with assms have "spec_volume_size dsz v < 2 ^ 64" by simp
    then show "unat (word_volume_size dsz v) = spec_volume_size dsz v"
      by (rule unat_word_volume_size)
  qed
  have "unat (0 + sum_list (map (word_volume_size dsz) vols))
          = unat (0 :: 64 word) + sum_list (map (spec_volume_size dsz) vols)"
    using assms each by (intro unat_sum_list) simp_all
  then show ?thesis by simp
qed

lemma createSparseFile_seek:
  "Ev_Seek f off r \<in> set (fst (createSparseFile s h file sz))
     \<Longrightarrow> Ev_Seek f off r \<in> set h \<or> (f = file \<and> off = ToBytes sz - 1)"
  by (auto simp add: createSparseFile_def split_beta do_emits split: option.splits)

lemma seek_size:
  fixes x :: "64 word"
  assumes "unat x = n" and "0 < n"
  shows "unat (x - 1) + 1 = n"
proof -
  have "x \<noteq> 0" using assms by auto
  then have "unat (x - 1) = unat x - 1" by (simp add: unat_minus_one)
  then show ?thesis using assms by simp
qed

lemma CreateVolumes_seek:
  assumes "Ev_Seek f off r \<in> set (fst (CreateVolumes s [] img vols np))"
  shows "\<exists>sizes tot. snd (volume_sizes s [] vols [] 0) = Inr (sizes, tot) \<and> f = img
           \<and> off = ((SectorSize + tot + tot div 10) AND NOT (SectorSize - 1))
                    + ToBytes (InMegaBytes 4) - 1"
proof (cases "snd (volume_sizes s [] vols [] 0)")
  case (Inl e)
  with assms show ?thesis
    by (simp add: CreateVolumes_def split_beta volume_sizes_mem)
next
  case (Inr x)
  obtain sizes tot where x: "x = (sizes, tot)" by (cases x)
  let ?h1 = "fst (volume_sizes s [] vols [] 0)"
  let ?sz = "InBytes (((SectorSize + tot + tot div 10) AND NOT (SectorSize - 1)) + ToBytes (InMegaBytes 4))"
  have "Ev_Seek f off r \<in> set (fst (createSparseFile s ?h1 img ?sz))"
    using assms Inr x
    by (simp add: CreateVolumes_def split_beta Let_def NewLoDevice_def layout_mem populate_mem
        split: option.splits sum.splits outcome.splits if_splits)
  from createSparseFile_seek [OF this] have "f = img \<and> off = ToBytes ?sz - 1"
    by (simp add: volume_sizes_mem)
  then show ?thesis using Inr x by simp
qed

lemma CreateVolumes_image_size:
  assumes st: "stable_sizes s dsz"
      and nov0: "fits (map (spec_volume_size dsz) vols)"
      and ev: "Ev_Seek f off r \<in> set (fst (CreateVolumes s [] img vols np))"
  shows "f = img \<and> unat off + 1 = spec_image_size (map (spec_volume_size dsz) vols)"
proof -
  let ?T = "sum_list (map (spec_volume_size dsz) vols)"
  have nov: "?T + ?T div 10 + 512 + 4 * 1024 * 1024 < 2 ^ 64"
    using nov0 unfolding fits_def .
  obtain sizes tot where r: "snd (volume_sizes s [] vols [] 0) = Inr (sizes, tot)" "f = img"
      "off = ((SectorSize + tot + tot div 10) AND NOT (SectorSize - 1)) + ToBytes (InMegaBytes 4) - 1"
    using CreateVolumes_seek [OF ev] by blast
  have "tot = 0 + sum_list (map (word_volume_size dsz) vols)"
    using volume_sizes_result [OF st r(1)] by simp
  then have tot: "unat tot = ?T"
    using nov by (simp add: unat_total)
  have "unat (((SectorSize + tot + tot div 10) AND NOT (SectorSize - 1)) + ToBytes (InMegaBytes 4))
          = spec_next_sector (unat tot + unat tot div 10) + 4 * 1024 * 1024"
    using nov by (intro unat_image_size) (simp only: tot)
  then have "unat (((SectorSize + tot + tot div 10) AND NOT (SectorSize - 1)) + ToBytes (InMegaBytes 4))
          = spec_image_size (map (spec_volume_size dsz) vols)"
    by (simp add: spec_image_size_def Let_def tot)
  moreover have "0 < spec_image_size (map (spec_volume_size dsz) vols)"
    by (simp add: spec_image_size_def Let_def)
  ultimately show ?thesis using r(2,3) seek_size by blast
qed

lemma CreatePartitionedVolumes_seek:
  assumes "Ev_Seek f off r \<in> set (fst (CreatePartitionedVolumes s [] img volumes))"
  shows "\<exists>sizes keys tot. snd (measure_volumes s [] volumes Map.empty [] 0) = Inr (sizes, keys, tot)
           \<and> f = img
           \<and> off = ((SectorSize + tot + tot div 10) AND NOT (SectorSize - 1))
                    + ToBytes (InMegaBytes 4) - 1"
proof (cases "snd (measure_volumes s [] volumes Map.empty [] 0)")
  case (Inl e)
  with assms show ?thesis
    by (simp add: CreatePartitionedVolumes_def split_beta measure_volumes_mem)
next
  case (Inr x)
  obtain sizes keys tot where x: "x = (sizes, keys, tot)" by (cases x)
  let ?h1 = "fst (measure_volumes s [] volumes Map.empty [] 0)"
  let ?sz = "InBytes (((SectorSize + tot + tot div 10) AND NOT (SectorSize - 1)) + ToBytes (InMegaBytes 4))"
  have "Ev_Seek f off r \<in> set (fst (createSparseFile s ?h1 img ?sz))"
    using assms Inr x
    by (simp add: CreatePartitionedVolumes_def split_beta Let_def NewLoDevice_def layout_mem
          populate_mem
        split: option.splits sum.splits outcome.splits if_splits)
  from createSparseFile_seek [OF this] have "f = img \<and> off = ToBytes ?sz - 1"
    by (simp add: measure_volumes_mem)
  then show ?thesis using Inr x by simp
qed

lemma CreatePartitionedVolumes_image_size:
  assumes st: "stable_sizes s dsz"
      and nov: "fits (map (implicit_size dsz) (map snd volumes))"
      and ev: "Ev_Seek f off r \<in> set (fst (CreatePartitionedVolumes s [] img volumes))"
  shows "f = img \<and> unat off + 1 = spec_image_size (map (implicit_size dsz) (map snd volumes))"
proof -
  let ?vs = "map (\<lambda>v. v\<lparr>Size := 0\<rparr>) (map snd volumes)"
  let ?T = "sum_list (map (spec_volume_size dsz) ?vs)"
  have same: "map (spec_volume_size dsz) ?vs = map (implicit_size dsz) (map snd volumes)"
    by (simp add: spec_volume_size_def implicit_size_def)
  have nov': "?T + ?T div 10 + 512 + 4 * 1024 * 1024 < 2 ^ 64"
    using nov unfolding same fits_def .
  obtain sizes keys tot where r: "snd (measure_volumes s [] volumes Map.empty [] 0) = Inr (sizes, keys, tot)"
      "f = img"
      "off = ((SectorSize + tot + tot div 10) AND NOT (SectorSize - 1)) + ToBytes (InMegaBytes 4) - 1"
    using CreatePartitionedVolumes_seek [OF ev] by blast
  have "map (\<lambda>kv. dsz (Path (snd kv)) + ToBytes (InMegaBytes 2)) volumes
          = map (word_volume_size dsz) ?vs"
    by (simp add: word_volume_size_def)
  then have "tot = 0 + sum_list (map (word_volume_size dsz) ?vs)"
    using measure_volumes_result [OF st r(1)] by (simp only: add_0)
  moreover have "?T < 2 ^ 64" using nov' by linarith
  ultimately have tot: "unat tot = ?T"
    by (simp only: add_0 unat_total)
  have "unat (((SectorSize + tot + tot div 10) AND NOT (SectorSize - 1)) + ToBytes (InMegaBytes 4))
          = spec_next_sector (unat tot + unat tot div 10) + 4 * 1024 * 1024"
    using nov' by (intro unat_image_size) (simp only: tot)
  then have "unat (((SectorSize + tot + tot div 10) AND NOT (SectorSize - 1)) + ToBytes (InMegaBytes 4))
          = spec_image_size (map (implicit_size dsz) (map snd volumes))"
    unfolding tot same [symmetric] by (simp add: spec_image_size_def Let_def)
  moreover have "0 < spec_image_size (map (implicit_size dsz) (map snd volumes))"
    by (simp add: spec_image_size_def Let_def)
  ultimately show ?thesis using r(2,3) seek_size by blast
qed

lemma int64_div_10:
  assumes "unat a < 2 ^ 63"
  shows "int64_div (a :: 64 word) 10 = a div 10"
proof -
  have "int (unat a) < int (2 ^ 63)" using assms by (simp only: of_nat_less_iff)
  then have u: "uint a < 2 ^ 63"
    by (simp only: of_nat_power of_nat_numeral flip: uint_nat)
  have "sint a = signed_take_bit 63 (uint a)" by (simp add: sint_uint)
  also have "\<dots> = uint a"
    using u by (intro signed_take_bit_int_eq_self) (simp_all add: order_trans [of _ 0])
  finally have sa: "sint a = uint a" .
  have s10: "sint (10 :: 64 word) = 10" by simp
  have "uint a sdiv 10 = uint a div 10"
    by (cases "uint a = 0") (simp_all add: signed_divide_int_def sgn_if)
  then have "int64_div a 10 = word_of_int (uint a div uint (10 :: 64 word))"
    by (simp add: int64_div_def sa s10)
  then show ?thesis by (simp add: word_div_def)
qed

lemma next_sector_floor: "(512 + k) div 512 * 512 = spec_next_sector k"
proof -
  have "(512 + k) div 512 = k div 512 + 1" by simp
  then show ?thesis by (simp only: spec_next_sector_def)
qed

lemma CreateSingleVolume_image_size:
  assumes st: "stable_sizes s dsz"
      and nov: "unat (dsz (Path v)) + unat (dsz (Path v)) div 10 + 512 + 2 * 1024 * 1024 < 2 ^ 63"
      and ev: "Ev_Seek f off r \<in> set (fst (CreateSingleVolume s [] file v))"
  shows "f = file
       \<and> unat off + 1 = spec_next_sector (unat (dsz (Path v)) + unat (dsz (Path v)) div 10
                                          + 2 * 1024 * 1024)"
proof -
  let ?d = "do_GetDirSize s [] (Path v)"
  let ?n = "unat (dsz (Path v))"
  from ev obtain n where n: "snd ?d = Inr n"
    by (cases "snd ?d") (simp_all add: CreateSingleVolume_def split_beta)
  have nd: "n = dsz (Path v)" using stable_sizesD [OF st n] .
  let ?s1 = "SectorSize + n + int64_div n 10 + ToBytes (InMegaBytes 2)"
  let ?s2 = "?s1 AND NOT (SectorSize - 1)"
  have "Ev_Seek f off r \<in> set (fst (createSparseFile s (fst ?d) file (InBytes ?s2)))"
    using ev n
    by (simp add: CreateSingleVolume_def split_beta Let_def CopyToImgFile_def NewLoDevice_def
          formatDeviceAndCopyContents_mem
        split: sum.splits option.splits)
  from createSparseFile_seek [OF this] have fo: "f = file" "off = ?s2 - 1"
    by simp_all
  have lt: "?n < 2 ^ 63" using nov by simp
  have dv: "int64_div n 10 = n div 10" using lt nd by (simp add: int64_div_10)
  have "512 + unat n + unat n div 10 < 2 ^ 64"
    using nov unfolding nd by simp
  from unat_slack [OF this]
  have a: "unat (SectorSize + n + n div 10) = 512 + ?n + ?n div 10"
    unfolding nd .
  have m: "unat (ToBytes (InMegaBytes 2)) = 2 * 1024 * 1024" by simp
  have b: "unat (SectorSize + n + n div 10) + unat (ToBytes (InMegaBytes 2)) < 2 ^ 64"
    unfolding a m using nov by simp
  let ?k = "?n + ?n div 10 + 2 * 1024 * 1024"
  have "unat ?s1 = (512 + ?n + ?n div 10) + 2 * 1024 * 1024"
    unfolding dv using unat_add_no_wrap [OF b] a m by simp
  then have s1: "unat ?s1 = 512 + ?k" by simp
  have k: "(512 + ?k) div 512 * 512 = spec_next_sector ?k"
    by (rule next_sector_floor)
  have s2: "unat ?s2 = spec_next_sector ?k"
    by (simp only: unat_sector_floor s1 k)
  have pos: "0 < spec_next_sector ?k"
    by (simp add: spec_next_sector_def)
  have "unat (?s2 - 1) + 1 = spec_next_sector ?k"
    using s2 pos by (rule seek_size)
  then show ?thesis using fo by simp
qed

lemma PrepareGrub_seek [simp]:
  "Ev_Seek f off r \<in> set (fst (PrepareGrub s h folder d k c)) \<longleftrightarrow> Ev_Seek f off r \<in> set h"
  by (simp add: PrepareGrub_def writeBootTemplate_def writeDeviceMap_def split_beta Let_def
      split: option.splits)

lemma CreateBootImageOnFile_seek:
  "Ev_Seek f off r \<in> set (fst (CreateBootImageOnFile s h rootFile sz prog cmd))
     \<longleftrightarrow> Ev_Seek f off r \<in> set h"
  by (simp add: CBI_unfold split: sum.splits option.splits list.splits Part.splits)

lemma CreateBootImageWithSize_seek:
  assumes "Ev_Seek f off r \<in> set (fst (CreateBootImageWithSize s [] rootFile prog cmd sz))"
  shows "f = rootFile \<and> off = ToBytes sz - 1"
proof -
  have "Ev_Seek f off r \<in> set (fst (createSparseFile s [] rootFile sz))"
    using assms
    by (simp add: CreateBootImageWithSize_def split_beta CreateBootImageOnFile_seek
        split: option.splits)
  from createSparseFile_seek [OF this] show ?thesis by simp
qed

lemma CreateBootImageWithSize_rejects:
  assumes "snd (createSparseFile s [] rootFile sz) = None" and "ToBytes sz mod SectorSize \<noteq> 0"
  shows "snd (CreateBootImageWithSize s [] rootFile prog cmd sz) = Some UnrepresentableSize"
  using assms
  by (simp add: CreateBootImageWithSize_def split_beta CreateBootImageOnFile_def ToSectors_def)

lemma next_sector_gt: "k < spec_next_sector k"
proof -
  have "k = k div 512 * 512 + k mod 512" by simp
  also have "\<dots> < k div 512 * 512 + 512" by simp
  finally show ?thesis by (simp add: spec_next_sector_def)
qed

lemma next_sector_dvd: "512 dvd spec_next_sector k"
  by (simp add: spec_next_sector_def)

lemma image_size_aligned: "512 dvd spec_image_size vs"
proof -
  have "(512::nat) dvd 4 * 1024 * 1024" by simp
  then show ?thesis
    unfolding spec_image_size_def Let_def by (intro dvd_add next_sector_dvd)
qed

lemma image_size_enough:
  "sum_list vs + sum_list vs div 10 + 4 * 1024 * 1024 \<le> spec_image_size vs"
  using next_sector_gt [of "sum_list vs + sum_list vs div 10"]
  by (simp add: spec_image_size_def Let_def)

lemmas vol_eval = CreateVolumes_def CreatePartitionedVolumes_def CreateSingleVolume_def
  CreateBootImageWithSize_def CreateBootImageOnFile_def createSparseFile_def copyToPart_def
  CopyToImgFile_def formatDeviceAndCopyContents_def vol_host_def boot_host_def exact_table_def
  size_at_def path_at_def eval_defs

lemma vol_host_stable: "stable_sizes vol_host (\<lambda>p. 1000)"
  by (simp add: stable_sizes_def vol_host_def boot_host_def)

lemma vol_host_CreateVolumes_seek:
  "Ev_Seek ''img'' 6507007 None
     \<in> set (fst (CreateVolumes vol_host [] ''img''
                   [\<lparr>Path = ''a'', Size = 0\<rparr>, \<lparr>Path = ''b'', Size = 4096\<rparr>] DiskLabelPartioner))"
  by (simp add: vol_eval)

lemma vol_host_CreatePartitionedVolumes_seek:
  "Ev_Seek ''img'' 8810495 None
     \<in> set (fst (CreatePartitionedVolumes vol_host [] ''img''
                   [(''/data'', \<lparr>Path = ''a'', Size = 0\<rparr>), (''/etc'', \<lparr>Path = ''b'', Size = 0\<rparr>)]))"
  by (simp add: vol_eval)

lemma vol_host_CreateSingleVolume_seek:
  "Ev_Seek ''img'' 2098687 None
     \<in> set (fst (CreateSingleVolume vol_host [] ''img'' \<lparr>Path = ''a'', Size = 0\<rparr>))"
  by (simp add: vol_eval int64_div_10)

lemma vol_host_CreateBootImageWithSize_seek:
  "Ev_Seek ''img'' 999 None
     \<in> set (fst (CreateBootImageWithSize vol_host [] ''img'' ''prog'' ''console=ttyS0'' (InBytes 1000)))"
  by (simp add: vol_eval)

text \<open>
  Claim C4, amended. On a host that reports one size for each directory, and as long as
  the sum stays within 64 bits: the file that \<open>CreateVolumes\<close> creates has the size
  given by the sum over the volumes of the explicit size, or of the directory size plus
  2 MB where the explicit size is zero, plus a tenth of that sum, raised to the next
  multiple of 512 strictly above it, plus 4 MB. The same holds for
  \<open>CreatePartitionedVolumes\<close> when no volume has an explicit size.
\<close>

theorem C4_image_size:
  assumes "stable_sizes s dsz"
  shows "(fits (map (spec_volume_size dsz) vols)
            \<and> Ev_Seek f off r \<in> set (fst (CreateVolumes s [] img vols np))
          \<longrightarrow> f = img \<and> unat off + 1 = spec_image_size (map (spec_volume_size dsz) vols))
       \<and> ((\<forall>kv \<in> set volumes. Size (snd kv) = 0)
            \<and> fits (map (spec_volume_size dsz) (map snd volumes))
            \<and> Ev_Seek f' off' r' \<in> set (fst (CreatePartitionedVolumes s [] img' volumes))
          \<longrightarrow> f' = img'
              \<and> unat off' + 1 = spec_image_size (map (spec_volume_size dsz) (map snd volumes)))"
proof (intro conjI impI)
  assume a: "fits (map (spec_volume_size dsz) vols)
            \<and> Ev_Seek f off r \<in> set (fst (CreateVolumes s [] img vols np))"
  from CreateVolumes_image_size [OF assms] a
  show "f = img" and "unat off + 1 = spec_image_size (map (spec_volume_size dsz) vols)"
    by blast+
next
  assume b: "(\<forall>kv \<in> set volumes. Size (snd kv) = 0)
            \<and> fits (map (spec_volume_size dsz) (map snd volumes))
            \<and> Ev_Seek f' off' r' \<in> set (fst (CreatePartitionedVolumes s [] img' volumes))"
  then have same: "map (spec_volume_size dsz) (map snd volumes)
                     = map (implicit_size dsz) (map snd volumes)"
    by (simp add: spec_volume_size_def implicit_size_def)
  from CreatePartitionedVolumes_image_size [OF assms, of volumes f' off' r' img'] b
  show "f' = img'"
    and "unat off' + 1 = spec_image_size (map (spec_volume_size dsz) (map snd volumes))"
    unfolding same by blast+
qed

theorem C4_image_size_witness:
  "stable_sizes vol_host (\<lambda>p. 1000)
   \<and> fits (map (spec_volume_size (\<lambda>p. 1000)) [\<lparr>Path = ''a'', Size = 0\<rparr>, \<lparr>Path = ''b'', Size = 4096\<rparr>])
   \<and> Ev_Seek ''img'' 6507007 None
        \<in> set (fst (CreateVolumes vol_host [] ''img''
                      [\<lparr>Path = ''a'', Size = 0\<rparr>, \<lparr>Path = ''b'', Size = 4096\<rparr>] DiskLabelPartioner))
   \<and> unat (6507007 :: 64 word) + 1
        = spec_image_size (map (spec_volume_size (\<lambda>p. 1000))
                             [\<lparr>Path = ''a'', Size = 0\<rparr>, \<lparr>Path = ''b'', Size = 4096\<rparr>])
   \<and> Ev_Seek ''img'' 8810495 None
        \<in> set (fst (CreatePartitionedVolumes vol_host [] ''img''
                      [(''/data'', \<lparr>Path = ''a'', Size = 0\<rparr>), (''/etc'', \<lparr>Path = ''b'', Size = 0\<rparr>)]))
   \<and> unat (8810495 :: 64 word) + 1
        = spec_image_size (map (spec_volume_size (\<lambda>p. 1000))
                             (map snd [(''/data'', \<lparr>Path = ''a'', Size = 0\<rparr>),
                                       (''/etc'', \<lparr>Path = ''b'', Size = 0\<rparr>)]))"
proof -
  have f1: "fits (map (spec_volume_size (\<lambda>p. 1000)) [\<lparr>Path = ''a'', Size = 0\<rparr>, \<lparr>Path = ''b'', Size = 4096\<rparr>])"
    by (simp add: fits_def spec_volume_size_def)
  have f2: "fits (map (spec_volume_size (\<lambda>p. 1000))
                    (map snd [(''/data'', \<lparr>Path = ''a'', Size = 0\<rparr>), (''/etc'', \<lparr>Path = ''b'', Size = 0\<rparr>)]))"
    by (simp add: fits_def spec_volume_size_def)
  have z: "\<forall>kv \<in> set [(''/data'', \<lparr>Path = ''a'', Size = 0\<rparr>), (''/etc'', \<lparr>Path = ''b'', Size = (0::64 word)\<rparr>)].
             Size (snd kv) = 0"
    by simp
  note t = C4_image_size [OF vol_host_stable,
      of "[\<lparr>Path = ''a'', Size = 0\<rparr>, \<lparr>Path = ''b'', Size = 4096\<rparr>]" "''img''" 6507007 None "''img''"
         DiskLabelPartioner
         "[(''/data'', \<lparr>Path = ''a'', Size = 0\<rparr>), (''/etc'', \<lparr>Path = ''b'', Size = 0\<rparr>)]"
         "''img''" 8810495 None "''img''"]
  from t f1 f2 z vol_host_CreateVolumes_seek vol_host_CreatePartitionedVolumes_seek vol_host_stable
  show ?thesis by blast
qed

text \<open>
  The claim as it is written fails twice. With one volume of explicit size 5120, the sum
  with its margin is 5632, a whole number of sectors, and \<open>CreateVolumes\<close> still adds a
  sector. With one volume of explicit size 1 MB, \<open>CreatePartitionedVolumes\<close> measures the
  directory all the same.
\<close>

theorem C4_image_size_counterexample:
  "Ev_Seek ''img'' 4200447 None
     \<in> set (fst (CreateVolumes vol_host [] ''img'' [\<lparr>Path = ''a'', Size = 5120\<rparr>] DiskLabelPartioner))
   \<and> unat (4200447 :: 64 word) + 1 \<noteq> spec_round_up_sector (5120 + 5120 div 10) + 4 * 1024 * 1024
   \<and> Ev_Seek ''img'' 6502399 None
     \<in> set (fst (CreatePartitionedVolumes vol_host [] ''img''
                   [(''/data'', \<lparr>Path = ''a'', Size = 1048576\<rparr>)]))
   \<and> unat (6502399 :: 64 word) + 1
       \<noteq> spec_round_up_sector (1048576 + 1048576 div 10) + 4 * 1024 * 1024
   \<and> unat (6502399 :: 64 word) + 1
       \<noteq> spec_next_sector (1048576 + 1048576 div 10) + 4 * 1024 * 1024"
  by (simp add: vol_eval spec_round_up_sector_def spec_next_sector_def)

text \<open>
  Claim C8, amended. On a host that reports one size for each directory, and as long as
  the sums stay within the integers of the source, the size of the file created by
  \<open>CreateVolumes\<close>, \<open>CreatePartitionedVolumes\<close> and \<open>CreateSingleVolume\<close> is a multiple
  of 512 and at least the space computed for the volumes with its margin (and the 4 MB
  of the disk, for the first two). \<open>CreateBootImageWithSize\<close> does not align: the file
  gets the size of the caller as it is, and a size that is not a whole number of sectors
  makes the call fail with the conversion error.
\<close>

theorem C8_sparse_file_sizes:
  assumes "stable_sizes s dsz"
  shows "(fits (map (spec_volume_size dsz) vols)
            \<and> Ev_Seek f1 o1 r1 \<in> set (fst (CreateVolumes s [] img1 vols np))
          \<longrightarrow> 512 dvd (unat o1 + 1)
              \<and> sum_list (map (spec_volume_size dsz) vols)
                  + sum_list (map (spec_volume_size dsz) vols) div 10 + 4 * 1024 * 1024
                  \<le> unat o1 + 1)
       \<and> (fits (map (implicit_size dsz) (map snd volumes))
            \<and> Ev_Seek f2 o2 r2 \<in> set (fst (CreatePartitionedVolumes s [] img2 volumes))
          \<longrightarrow> 512 dvd (unat o2 + 1)
              \<and> sum_list (map (implicit_size dsz) (map snd volumes))
                  + sum_list (map (implicit_size dsz) (map snd volumes)) div 10 + 4 * 1024 * 1024
                  \<le> unat o2 + 1)
       \<and> (implicit_size dsz v + unat (dsz (Path v)) div 10 + 512 < 2 ^ 63
            \<and> Ev_Seek f3 o3 r3 \<in> set (fst (CreateSingleVolume s [] img3 v))
          \<longrightarrow> 512 dvd (unat o3 + 1)
              \<and> implicit_size dsz v + unat (dsz (Path v)) div 10 \<le> unat o3 + 1)
       \<and> (Ev_Seek f4 o4 r4 \<in> set (fst (CreateBootImageWithSize s [] img4 prog cmd sz))
          \<longrightarrow> o4 = ToBytes sz - 1)
       \<and> (snd (createSparseFile s [] img4 sz) = None \<and> ToBytes sz mod SectorSize \<noteq> 0
          \<longrightarrow> snd (CreateBootImageWithSize s [] img4 prog cmd sz) = Some UnrepresentableSize)"
proof (intro conjI impI)
  assume a: "fits (map (spec_volume_size dsz) vols)
            \<and> Ev_Seek f1 o1 r1 \<in> set (fst (CreateVolumes s [] img1 vols np))"
  then have e: "unat o1 + 1 = spec_image_size (map (spec_volume_size dsz) vols)"
    using CreateVolumes_image_size [OF assms] by blast
  show "512 dvd (unat o1 + 1)" unfolding e by (rule image_size_aligned)
  show "sum_list (map (spec_volume_size dsz) vols)
          + sum_list (map (spec_volume_size dsz) vols) div 10 + 4 * 1024 * 1024 \<le> unat o1 + 1"
    unfolding e by (rule image_size_enough)
next
  assume a: "fits (map (implicit_size dsz) (map snd volumes))
            \<and> Ev_Seek f2 o2 r2 \<in> set (fst (CreatePartitionedVolumes s [] img2 volumes))"
  then have e: "unat o2 + 1 = spec_image_size (map (implicit_size dsz) (map snd volumes))"
    using CreatePartitionedVolumes_image_size [OF assms] by blast
  show "512 dvd (unat o2 + 1)" unfolding e by (rule image_size_aligned)
  show "sum_list (map (implicit_size dsz) (map snd volumes))
          + sum_list (map (implicit_size dsz) (map snd volumes)) div 10 + 4 * 1024 * 1024
          \<le> unat o2 + 1"
    unfolding e by (rule image_size_enough)
next
  let ?n = "unat (dsz (Path v))"
  assume a: "implicit_size dsz v + unat (dsz (Path v)) div 10 + 512 < 2 ^ 63
            \<and> Ev_Seek f3 o3 r3 \<in> set (fst (CreateSingleVolume s [] img3 v))"
  then have nov: "?n + ?n div 10 + 512 + 2 * 1024 * 1024 < 2 ^ 63"
    by (simp add: implicit_size_def)
  from a have ev: "Ev_Seek f3 o3 r3 \<in> set (fst (CreateSingleVolume s [] img3 v))" by simp
  have e: "unat o3 + 1 = spec_next_sector (?n + ?n div 10 + 2 * 1024 * 1024)"
    using CreateSingleVolume_image_size [OF assms nov ev] by simp
  show "512 dvd (unat o3 + 1)" unfolding e by (rule next_sector_dvd)
  show "implicit_size dsz v + unat (dsz (Path v)) div 10 \<le> unat o3 + 1"
    unfolding e using next_sector_gt [of "?n + ?n div 10 + 2 * 1024 * 1024"]
    by (simp add: implicit_size_def)
next
  assume "Ev_Seek f4 o4 r4 \<in> set (fst (CreateBootImageWithSize s [] img4 prog cmd sz))"
  from CreateBootImageWithSize_seek [OF this] show "o4 = ToBytes sz - 1" by simp
next
  assume "snd (createSparseFile s [] img4 sz) = None \<and> ToBytes sz mod SectorSize \<noteq> 0"
  then show "snd (CreateBootImageWithSize s [] img4 prog cmd sz) = Some UnrepresentableSize"
    using CreateBootImageWithSize_rejects by blast
qed

theorem C8_sparse_file_sizes_counterexample:
  "Ev_Seek ''img'' 999 None
     \<in> set (fst (CreateBootImageWithSize vol_host [] ''img'' ''prog'' ''console=ttyS0'' (InBytes 1000)))
   \<and> \<not> 512 dvd (unat (999 :: 64 word) + 1)"
  by (simp add: vol_host_CreateBootImageWithSize_seek)

lemma vol_host_createSparseFile: "snd (createSparseFile vol_host [] ''img'' (InBytes 1000)) = None"
  by (simp add: vol_eval)

theorem C8_sparse_file_sizes_witness:
  "stable_sizes vol_host (\<lambda>p. 1000)
   \<and> fits (map (spec_volume_size (\<lambda>p. 1000)) [\<lparr>Path = ''a'', Size = 0\<rparr>, \<lparr>Path = ''b'', Size = 4096\<rparr>])
   \<and> Ev_Seek ''img'' 6507007 None
        \<in> set (fst (CreateVolumes vol_host [] ''img''
                      [\<lparr>Path = ''a'', Size = 0\<rparr>, \<lparr>Path = ''b'', Size = 4096\<rparr>] DiskLabelPartioner))
   \<and> 512 dvd (unat (6507007 :: 64 word) + 1)
   \<and> fits (map (implicit_size (\<lambda>p. 1000))
              (map snd [(''/data'', \<lparr>Path = ''a'', Size = 0\<rparr>), (''/etc'', \<lparr>Path = ''b'', Size = 0\<rparr>)]))
   \<and> Ev_Seek ''img'' 8810495 None
        \<in> set (fst (CreatePartitionedVolumes vol_host [] ''img''
                      [(''/data'', \<lparr>Path = ''a'', Size = 0\<rparr>), (''/etc'', \<lparr>Path = ''b'', Size = 0\<rparr>)]))
   \<and> 512 dvd (unat (8810495 :: 64 word) + 1)
   \<and> implicit_size (\<lambda>p. 1000) \<lparr>Path = ''a'', Size = 0\<rparr> + unat (1000 :: 64 word) div 10 + 512 < 2 ^ 63
   \<and> Ev_Seek ''img'' 2098687 None
        \<in> set (fst (CreateSingleVolume vol_host [] ''img'' \<lparr>Path = ''a'', Size = 0\<rparr>))
   \<and> 512 dvd (unat (2098687 :: 64 word) + 1)
   \<and> Ev_Seek ''img'' 999 None
        \<in> set (fst (CreateBootImageWithSize vol_host [] ''img'' ''prog'' ''console=ttyS0'' (InBytes 1000)))
   \<and> snd (createSparseFile vol_host [] ''img'' (InBytes 1000)) = None
   \<and> ToBytes (InBytes 1000) mod SectorSize \<noteq> 0
   \<and> snd (CreateBootImageWithSize vol_host [] ''img'' ''prog'' ''console=ttyS0'' (InBytes 1000))
       = Some UnrepresentableSize"
proof -
  have f1: "fits (map (spec_volume_size (\<lambda>p. 1000)) [\<lparr>Path = ''a'', Size = 0\<rparr>, \<lparr>Path = ''b'', Size = 4096\<rparr>])"
    by (simp add: fits_def spec_volume_size_def)
  have f2: "fits (map (implicit_size (\<lambda>p. 1000))
                    (map snd [(''/data'', \<lparr>Path = ''a'', Size = 0\<rparr>), (''/etc'', \<lparr>Path = ''b'', Size = 0\<rparr>)]))"
    by (simp add: fits_def implicit_size_def)
  have f3: "implicit_size (\<lambda>p. 1000) \<lparr>Path = ''a'', Size = 0\<rparr> + unat (1000 :: 64 word) div 10 + 512 < 2 ^ 63"
    by (simp add: implicit_size_def)
  have f4: "ToBytes (InBytes 1000) mod SectorSize \<noteq> 0"
    by (simp add: SectorSize_def)
  note t = C8_sparse_file_sizes [OF vol_host_stable,
      of "[\<lparr>Path = ''a'', Size = 0\<rparr>, \<lparr>Path = ''b'', Size = 4096\<rparr>]" "''img''" 6507007 None "''img''"
         DiskLabelPartioner
         "[(''/data'', \<lparr>Path = ''a'', Size = 0\<rparr>), (''/etc'', \<lparr>Path = ''b'', Size = 0\<rparr>)]"
         "''img''" 8810495 None "''img''"
         "\<lparr>Path = ''a'', Size = 0\<rparr>" "''img''" 2098687 None "''img''"
         "''img''" 999 None "''img''" "''prog''" "''console=ttyS0''" "InBytes 1000"]
  from t f1 f2 f3 f4 vol_host_stable vol_host_CreateVolumes_seek
    vol_host_CreatePartitionedVolumes_seek vol_host_CreateSingleVolume_seek
    vol_host_CreateBootImageWithSize_seek vol_host_createSparseFile
  show ?thesis by simp
qed


end
